theory Spec2Isabelle
  imports Main "HOL-Library.AList"
begin

text \<open>
  An embedding of the coordinator of Eleventy, the class \<open>Eleventy\<close> of \<open>src/Eleventy.js\<close>:
  the gate that decides on a configuration reset, the setters of the incremental mode,
  the carryover cache of \<open>init\<close>, one build pass (\<open>executeBuild\<close>) and the watch loop
  (\<open>watch\<close>, \<open>_watch\<close>). Methods are functions on a record of the fields they read and
  write; what a method does to its collaborators is appended to a trace; a method that
  may throw returns its outcome together with the state it leaves. Line numbers are those
  of \<open>Eleventy.js\<close>.
\<close>

section \<open>Values, errors and collaborators\<close>

type_synonym path = string

text \<open>
  The values of JavaScript that the coordinator stores in fields, passes around or tests
  for truthiness (\<open>!!v\<close>). An object is known by its identity only; an array by its
  elements. \<open>NaN\<close> is left out of the numbers.
\<close>

datatype jsval =
    Undefined | Null | Boolean bool | Number int | String string
  | Object nat | Array "jsval list"

fun truthy :: "jsval \<Rightarrow> bool" where
  "truthy Undefined = False"
| "truthy Null = False"
| "truthy (Boolean b) = b"
| "truthy (Number n) = (n \<noteq> 0)"
| "truthy (String s) = (s \<noteq> [])"
| "truthy (Object r) = True"
| "truthy (Array vs) = True"

text \<open>
  Thrown values. The watch handler only asks whether an error is an instance of
  \<open>EleventyBaseError\<close>.
\<close>

datatype error = EleventyBaseError string | Error string | TypeError string

fun isEleventyBaseError :: "error \<Rightarrow> bool" where
  "isEleventyBaseError (EleventyBaseError m) = True"
| "isEleventyBaseError (Error m) = False"
| "isEleventyBaseError (TypeError m) = False"

text \<open>A call either returns or throws; the state it leaves behind is kept in both cases.\<close>

datatype 'a outcome = Returned 'a | Thrown error

text \<open>
  Collaborators of \<open>Eleventy.js\<close> whose code lives outside the file are parameters:
  \<open>TemplatePath\<close> (package \<open>@11ty/eleventy-utils\<close>), \<open>PathNormalizer\<close>,
  \<open>PathPrefixer\<close>, \<open>TemplateConfig.getLocalProjectConfigFiles\<close>,
  \<open>EleventyWatchTargets.getDependenciesOf\<close>, \<open>EleventyFiles.getIncludesDir\<close> and the
  \<open>pathPrefix\<close> of the configuration.
\<close>

record collab =
  normalize :: "path \<Rightarrow> path"
  addLeadingDotSlash :: "path \<Rightarrow> path"
  normalizeSeperator :: "path \<Rightarrow> path"
  getLocalProjectConfigFiles :: "path list"
  getDependenciesOf :: "path \<Rightarrow> path list"
  startsWithSubPath :: "path \<Rightarrow> path \<Rightarrow> bool"
  getIncludesDir :: path
  pathPrefix :: string
  normalizePathPrefix :: "string \<Rightarrow> string"
  joinUrlParts :: "string \<Rightarrow> jsval \<Rightarrow> jsval"

section \<open>The configuration-reset gate\<close>

text \<open>The loop \<open>for (let filePath of changedFiles) if (S.has(filePath)) return true\<close>.\<close>

primrec hasAny :: "path list \<Rightarrow> path list \<Rightarrow> bool" where
  "hasAny S [] = False"
| "hasAny S (filePath # rest) = (if filePath \<in> set S then True else hasAny S rest)"

text \<open>The loop over the configuration files, each with the set of its dependencies.\<close>

primrec dependencyLoop :: "(path \<Rightarrow> path list) \<Rightarrow> path list \<Rightarrow> path list \<Rightarrow> bool" where
  "dependencyLoop deps [] changedFiles = False"
| "dependencyLoop deps (configFilePath # rest) changedFiles =
     (if hasAny (deps configFilePath) changedFiles then True
      else dependencyLoop deps rest changedFiles)"

text \<open>\<open>new Set(xs)\<close>, by its elements in the order of iteration (first insertion).\<close>

definition newSet :: "path list \<Rightarrow> path list" where
  "newSet xs = fold (\<lambda>x acc. if x \<in> set acc then acc else acc @ [x]) xs []"

definition shouldTriggerConfigReset :: "'a collab_scheme \<Rightarrow> path list \<Rightarrow> bool" where
  "shouldTriggerConfigReset E changedFiles =
     (let configFilePaths = newSet (getLocalProjectConfigFiles E) in
      if hasAny configFilePaths changedFiles then True
      else dependencyLoop (getDependenciesOf E) configFilePaths changedFiles)"

text \<open>
  \<open>_shouldResetConfig\<close> (a leading underscore of the source is dropped throughout, since
  an identifier cannot start with one).
\<close>

definition shouldResetConfig :: "'a collab_scheme \<Rightarrow> path list \<Rightarrow> bool" where
  "shouldResetConfig E activeQueue =
     (if length activeQueue = 0 then False
      else shouldTriggerConfigReset E
             (map (\<lambda>path. normalizeSeperator E (addLeadingDotSlash E path)) activeQueue))"

text \<open>
  A sample project, used to run the definitions on concrete inputs: a Windows-style
  separator normaliser, the leading-dot-slash convention, one configuration file with one
  recorded dependency, and a path prefix that is prepended to string URLs.
\<close>

definition sampleSeperator :: "path \<Rightarrow> path" where
  "sampleSeperator p = map (\<lambda>c. if c = CHR 0x5C then CHR ''/'' else c) p"

definition sampleDotSlash :: "path \<Rightarrow> path" where
  "sampleDotSlash p =
     (if p = ''.'' \<or> p = ''..'' then p @ ''/''
      else if take 1 p = ''/'' \<or> take 2 p = ''./'' \<or> take 3 p = ''../'' then p
      else ''./'' @ p)"

definition sampleJoin :: "string \<Rightarrow> jsval \<Rightarrow> jsval" where
  "sampleJoin prefix u = (case u of String s \<Rightarrow> String (prefix @ s) | v \<Rightarrow> v)"

definition sampleProject :: collab where
  "sampleProject =
     \<lparr> normalize = (\<lambda>p. p),
       addLeadingDotSlash = sampleDotSlash,
       normalizeSeperator = sampleSeperator,
       getLocalProjectConfigFiles = [''./eleventy.config.js''],
       getDependenciesOf =
         (\<lambda>c. if c = ''./eleventy.config.js'' then [''./lib/filters.js''] else []),
       startsWithSubPath = (\<lambda>p dir. take (length dir) p = dir),
       getIncludesDir = ''./_includes'',
       pathPrefix = ''/blog'',
       normalizePathPrefix = (\<lambda>p. p),
       joinUrlParts = sampleJoin \<rparr>"

section \<open>The watch manager\<close>

text \<open>
  Modelled from the spec: the class \<open>EleventyWatch\<close> lives in \<open>EleventyWatch.js\<close>, of
  which \<open>Eleventy.js\<close> is only a caller. Its state is the state of section 4.3
  of the specification, \<open>{queue, buildRunning}\<close>, with the queue split into an active
  queue (the snapshot owned by the build in flight) and a pending queue; the field
  \<open>incremental\<close> is the one \<open>Eleventy.js\<close> assigns.
\<close>

record EleventyWatch =
  incremental :: bool
  buildRunning :: bool
  activeQueue :: "path list"
  pendingQueue :: "path list"

text \<open>Modelled from the spec: a new watch manager is idle, with nothing queued.\<close>

definition newEleventyWatch :: EleventyWatch where
  "newEleventyWatch =
     \<lparr> incremental = False, buildRunning = False, activeQueue = [], pendingQueue = [] \<rparr>"

text \<open>Modelled from the spec: \<open>isBuildRunning\<close> reads the flag \<open>buildRunning\<close>.\<close>

definition isBuildRunning :: "EleventyWatch \<Rightarrow> bool" where
  "isBuildRunning wm = buildRunning wm"

text \<open>
  Modelled from the spec: \<open>setBuildRunning\<close> is step 2 of section 4.3, "mark
  \<open>buildRunning = true\<close>, snapshot \<open>queue\<close> as the active queue for this cycle (clearing
  it from \<open>queue\<close>)".
\<close>

definition setBuildRunning :: "EleventyWatch \<Rightarrow> EleventyWatch" where
  "setBuildRunning wm =
     wm\<lparr> buildRunning := True, activeQueue := pendingQueue wm, pendingQueue := [] \<rparr>"

text \<open>Modelled from the spec: \<open>setBuildFinished\<close> is "clear \<open>buildRunning\<close>" of step 4.\<close>

definition setBuildFinished :: "EleventyWatch \<Rightarrow> EleventyWatch" where
  "setBuildFinished wm = wm\<lparr> buildRunning := False \<rparr>"

text \<open>Modelled from the spec: the active queue is the snapshot of the cycle in flight.\<close>

definition getActiveQueue :: "EleventyWatch \<Rightarrow> path list" where
  "getActiveQueue wm = activeQueue wm"

text \<open>
  Modelled from the spec: \<open>addToPendingQueue\<close> is step 1 of section 4.3, "normalize
  path, insert into \<open>queue\<close> (dedup)", a changed path being a "normalized relative path
  (consistent separator, leading-dot-slash convention)".
\<close>

definition addToPendingQueue :: "'a collab_scheme \<Rightarrow> path \<Rightarrow> EleventyWatch \<Rightarrow> EleventyWatch" where
  "addToPendingQueue E p wm =
     (let n = normalizeSeperator E (addLeadingDotSlash E p) in
      if n \<in> set (pendingQueue wm) then wm
      else wm\<lparr> pendingQueue := pendingQueue wm @ [n] \<rparr>)"

text \<open>Modelled from the spec: the size of the pending queue.\<close>

definition getPendingQueueSize :: "EleventyWatch \<Rightarrow> nat" where
  "getPendingQueueSize wm = length (pendingQueue wm)"

text \<open>
  Modelled from the spec: \<open>hasAllQueueFiles\<close> is the test of section 4.6, "every path in
  the cycle's active queue" satisfies the predicate.
\<close>

definition hasAllQueueFiles :: "EleventyWatch \<Rightarrow> (path \<Rightarrow> bool) \<Rightarrow> bool" where
  "hasAllQueueFiles wm f = list_all f (activeQueue wm)"

section \<open>The state of an Eleventy instance\<close>

text \<open>
  The write pipeline object (\<open>TemplateWriter\<close>, outside the file) as \<open>Eleventy.js\<close> sees
  it: its properties by name, its \<open>caches\<close> property (absent, falsy, or a list of
  property names) and the three counters its getters return.
\<close>

datatype cachesProp = NoCaches | FalsyCaches | CachesList "string list"

record templateWriter =
  props :: "(string \<times> jsval) list"
  caches :: cachesProp
  writeCount :: nat
  skippedCount :: nat
  copyCount :: nat

text \<open>
  The summary line of \<open>logFinished\<close>, by its parts: the number formatting, the plural
  helper and the package version are outside the file, and the times are floating point.
\<close>

datatype segment = Copied nat | Wrote nat "nat option" | InTime string | Each | Version

text \<open>
  An element of the reload payload's \<open>build.templates\<close>: a result entry (an object, by
  identity) with the \<open>url\<close> it has when the payload is published, or any other value.
\<close>

datatype item = Entry nat jsval | Plain jsval

record reloadPayload =
  files :: "path list"
  subtype :: "string option"
  templates :: "item list"

text \<open>
  What the instance does to its collaborators, in order. \<open>LogRunAgain n\<close> is the message
  "You saved while Eleventy was running, let's run again. (n changes)".
\<close>

datatype event =
    Fatal error string
  | ErrorReported error string
  | Emit string
  | WriterSetIncrementalFile jsval
  | WriterResetIncrementalFile
  | WriterCall string
  | BenchFinish
  | Message "segment list" string
  | CacheSync string
  | Log string
  | LogRunAgain nat
  | ResourceModified path bool
  | ResetConfig
  | Restart
  | SendError error
  | Reload reloadPayload
  | StopWatch

record eleventy =
  source :: string
  needsInit :: bool
  initing :: bool
  hasConfigInitialized :: bool
  isIncremental :: bool
  isRunInitialBuild :: bool
  programmaticApiIncrementalFile :: jsval
  writer :: "templateWriter option"
  watchManager :: "EleventyWatch option"
  privateCaches :: "(string \<times> (string \<times> jsval) list) list option"
  trace :: "event list"

text \<open>The constructor, for the fields above (\<open>options.source || "script"\<close>).\<close>

definition newEleventy :: "string \<Rightarrow> eleventy" where
  "newEleventy optionsSource =
     \<lparr> source = (if optionsSource = [] then ''script'' else optionsSource),
       needsInit = True, initing = False, hasConfigInitialized = False,
       isIncremental = False, isRunInitialBuild = True,
       programmaticApiIncrementalFile = Undefined,
       writer = None, watchManager = None, privateCaches = None, trace = [] \<rparr>"

definition logE :: "event \<Rightarrow> 'a eleventy_scheme \<Rightarrow> 'a eleventy_scheme" where
  "logE ev s = s\<lparr> trace := trace s @ [ev] \<rparr>"

text \<open>Sequencing of calls that may throw: the first exception ends the sequence.\<close>

definition andThen ::
  "'a outcome \<times> 's \<Rightarrow> ('a \<Rightarrow> 's \<Rightarrow> 'b outcome \<times> 's) \<Rightarrow> 'b outcome \<times> 's" where
  "andThen m f = (case m of (Thrown e, s) \<Rightarrow> (Thrown e, s) | (Returned a, s) \<Rightarrow> f a s)"

subsection \<open>Setters\<close>

definition setIgnoreInitial :: "bool \<Rightarrow> 'a eleventy_scheme \<Rightarrow> 'a eleventy_scheme" where
  "setIgnoreInitial ignoreInitialBuild s = s\<lparr> isRunInitialBuild := \<not> ignoreInitialBuild \<rparr>"

text \<open>
  \<open>setIncrementalBuild\<close>: the second assignment dereferences \<open>this.watchManager\<close>, which
  exists only once \<open>initializeConfig\<close> or \<open>initWatch\<close> has run; before that it is a
  \<open>TypeError\<close>, after the first assignment has been made.
\<close>

definition setIncrementalBuild ::
  "bool \<Rightarrow> 'a eleventy_scheme \<Rightarrow> unit outcome \<times> 'a eleventy_scheme" where
  "setIncrementalBuild isInc s =
     (let s1 = s\<lparr> isIncremental := isInc \<rparr> in
      case watchManager s1 of
        None \<Rightarrow> (Thrown (TypeError ''Cannot set properties of undefined''), s1)
      | Some wm \<Rightarrow> (Returned (), s1\<lparr> watchManager := Some (wm\<lparr> incremental := isInc \<rparr>) \<rparr>))"

definition setIncrementalFile ::
  "jsval \<Rightarrow> 'a eleventy_scheme \<Rightarrow> unit outcome \<times> 'a eleventy_scheme" where
  "setIncrementalFile incrementalFile s =
     (if truthy incrementalFile then
        andThen (setIncrementalBuild True (setIgnoreInitial True s))
          (\<lambda>_ s1. (Returned (), s1\<lparr> programmaticApiIncrementalFile := incrementalFile \<rparr>))
      else (Returned (), s))"

subsection \<open>The carryover cache\<close>

text \<open>Reading a property that an object does not have gives \<open>undefined\<close>.\<close>

definition getField :: "(string \<times> jsval) list \<Rightarrow> string \<Rightarrow> jsval" where
  "getField fs k = (case map_of fs k of None \<Rightarrow> Undefined | Some v \<Rightarrow> v)"

text \<open>\<open>for (let cacheKey in c) inst[cacheKey] = c[cacheKey]\<close>\<close>

definition restoreFields ::
  "(string \<times> jsval) list \<Rightarrow> (string \<times> jsval) list \<Rightarrow> (string \<times> jsval) list" where
  "restoreFields c fs = fold (\<lambda>(cacheKey, v) acc. AList.update cacheKey v acc) c fs"

text \<open>\<open>let c = {}; for (let cacheKey of inst.caches || []) c[cacheKey] = inst[cacheKey]\<close>\<close>

definition captureFields :: "string list \<Rightarrow> (string \<times> jsval) list \<Rightarrow> (string \<times> jsval) list" where
  "captureFields keys fs =
     fold (\<lambda>cacheKey c. AList.update cacheKey (getField fs cacheKey) c) keys []"

text \<open>\<open>inst.caches || []\<close>\<close>

definition declaredCaches :: "cachesProp \<Rightarrow> string list" where
  "declaredCaches cs = (case cs of CachesList ks \<Rightarrow> ks | _ \<Rightarrow> [])"

text \<open>The map \<open>_privateCaches\<close>, empty as long as it has not been created.\<close>

definition snapshots :: "'a eleventy_scheme \<Rightarrow> (string \<times> (string \<times> jsval) list) list" where
  "snapshots s = (case privateCaches s of None \<Rightarrow> [] | Some m \<Rightarrow> m)"

text \<open>
  \<open>_cache(key, inst)\<close>. The instance is an object that the caller shares, so the model
  returns it as the call leaves it. The call is recorded in the trace on entry.
\<close>

definition cache ::
  "string \<Rightarrow> templateWriter \<Rightarrow> 'a eleventy_scheme \<Rightarrow> templateWriter outcome \<times> 'a eleventy_scheme" where
  "cache key inst s =
     (let m = snapshots s;
          s1 = logE (CacheSync key) (s\<lparr> privateCaches := Some m \<rparr>) in
      case caches inst of
        NoCaches \<Rightarrow> (Thrown (Error ''To use _cache you need a `caches` getter object''), s1)
      | cs \<Rightarrow>
         (case map_of m key of
            Some c \<Rightarrow> (Returned (inst\<lparr> props := restoreFields c (props inst) \<rparr>), s1)
          | None \<Rightarrow>
              (Returned inst,
               s1\<lparr> privateCaches :=
                     Some (AList.update key
                             (captureFields (declaredCaches cs) (props inst)) m) \<rparr>)))"

subsection \<open>Initialisation\<close>

text \<open>
  What \<open>init\<close> gets from its collaborators: whether \<open>initializeConfig\<close> throws, which
  it is taken to do before it creates the watch manager; whether a later step before the
  creation of the writer throws (lines 418 to 460: the listeners of the \<open>eleventy.*\<close>
  events, \<open>EleventyFiles.init\<close>); the object that \<open>new TemplateWriter\<close> returns; and
  what lines 469 to 490 (assignments and setter calls on the writer, given
  \<open>isRunInitialBuild\<close> and \<open>isIncremental\<close>) make of it.
\<close>

record initEnv =
  configFailure :: "error option"
  initFailure :: "error option"
  newTemplateWriter :: templateWriter
  configureWriter :: "bool \<Rightarrow> bool \<Rightarrow> templateWriter \<Rightarrow> templateWriter"

text \<open>
  \<open>initializeConfig\<close>, for the fields above: it creates the watch manager (line 205)
  and marks the configuration as initialised (line 215).
\<close>

definition initializeConfig :: "'a eleventy_scheme \<Rightarrow> 'a eleventy_scheme" where
  "initializeConfig s = s\<lparr> watchManager := Some newEleventyWatch, hasConfigInitialized := True \<rparr>"

definition finishInit ::
  "initEnv \<Rightarrow> templateWriter \<Rightarrow> 'a eleventy_scheme \<Rightarrow> unit outcome \<times> 'a eleventy_scheme" where
  "finishInit env w s =
     (Returned (),
      s\<lparr> writer := Some (configureWriter env (isRunInitialBuild s) (isIncremental s) w),
         needsInit := False \<rparr>)"

text \<open>Lines 414 to 416.\<close>

definition ensureConfig ::
  "initEnv \<Rightarrow> 'a eleventy_scheme \<Rightarrow> unit outcome \<times> 'a eleventy_scheme" where
  "ensureConfig env s =
     (if \<not> hasConfigInitialized s then
        (case configFailure env of
           Some e \<Rightarrow> (Thrown e, s)
         | None \<Rightarrow> (Returned (), initializeConfig s))
      else (Returned (), s))"

definition init ::
  "initEnv \<Rightarrow> bool \<Rightarrow> 'a eleventy_scheme \<Rightarrow> unit outcome \<times> 'a eleventy_scheme" where
  "init env viaConfigReset s =
     andThen (ensureConfig env s) (\<lambda>_ s1.
       case initFailure env of
         Some e \<Rightarrow> (Thrown e, s1)
       | None \<Rightarrow>
          (let s2 = s1\<lparr> writer := Some (newTemplateWriter env) \<rparr> in
           if \<not> viaConfigReset then
             andThen (cache ''TemplateWriter'' (newTemplateWriter env) s2) (finishInit env)
           else finishInit env (newTemplateWriter env) s2))"

text \<open>
  A sample writer and initialisation, used to run the definitions on concrete inputs:
  the writer declares one cacheable property, and the later setter calls leave the
  properties alone.
\<close>

definition sampleWriter :: templateWriter where
  "sampleWriter =
     \<lparr> props = [(''pathCache'', Object 7), (''verbose'', Boolean True)],
       caches = CachesList [''pathCache''],
       writeCount = 3, skippedCount = 0, copyCount = 2 \<rparr>"

definition sampleInitEnv :: initEnv where
  "sampleInitEnv =
     \<lparr> configFailure = None, initFailure = None, newTemplateWriter = sampleWriter,
       configureWriter = (\<lambda>runInitial incr w. w) \<rparr>"


section \<open>One build pass\<close>

text \<open>
  What one call of \<open>executeBuild\<close> gets from its collaborators: the environment of
  \<open>init\<close>; the outcome of awaiting an initialisation that an earlier caller has started
  (\<open>this._initing\<close>); for each event name, whether a listener of
  \<open>config.events.emit\<close> throws; what the promise of the write pipeline
  (\<open>writer.write()\<close> or \<open>writer.getJSON(to)\<close>) resolves to, an array, or rejects with;
  the values of the writer's three counters once the pipeline has run; the stream that
  \<open>logger.closeStream\<close> returns; and the elapsed time as \<open>logFinished\<close> formats it.
\<close>

record buildEnv =
  initE :: initEnv
  sharedInit :: "error option"
  listeners :: "string \<Rightarrow> error option"
  pipeline :: "error + jsval list"
  written :: nat
  skippedFiles :: nat
  copied :: nat
  stream :: jsval
  elapsed :: string

text \<open>What \<open>executeBuild\<close> returns: an array, a stream, or the object \<open>{error: e}\<close>.\<close>

datatype buildReturn = Results "jsval list" | Stream jsval | ErrorObject error

definition emit ::
  "buildEnv \<Rightarrow> string \<Rightarrow> 'a eleventy_scheme \<Rightarrow> unit outcome \<times> 'a eleventy_scheme" where
  "emit env name s =
     (case listeners env name of
        Some e \<Rightarrow> (Thrown e, logE (Emit name) s)
      | None \<Rightarrow> (Returned (), logE (Emit name) s))"

text \<open>\<open>Array.prototype.flat()\<close>, one level deep.\<close>

definition flat :: "jsval list \<Rightarrow> jsval list" where
  "flat vs = concat (map (\<lambda>v. case v of Array ws \<Rightarrow> ws | _ \<Rightarrow> [v]) vs)"

text \<open>\<open>ret[1] = v\<close> on an array: a shorter array is extended, a hole reads \<open>undefined\<close>.\<close>

definition setIndex1 :: "jsval list \<Rightarrow> jsval \<Rightarrow> jsval list" where
  "setIndex1 ret v =
     (case ret of [] \<Rightarrow> [Undefined, v] | [c] \<Rightarrow> [c, v] | c # _ # rest \<Rightarrow> c # v # rest)"

text \<open>The line that \<open>logFinished\<close> builds from the counters of the writer.\<close>

definition summaryLine :: "string \<Rightarrow> templateWriter \<Rightarrow> segment list" where
  "summaryLine time w =
     (if copyCount w \<noteq> 0 then [Copied (copyCount w)] else []) @
     [Wrote (writeCount w) (if skippedCount w \<noteq> 0 then Some (skippedCount w) else None),
      InTime time,
      if writeCount w \<ge> 10 then Each else Version]"

definition logFinished :: "string \<Rightarrow> 'a eleventy_scheme \<Rightarrow> error + segment list" where
  "logFinished time s =
     (case writer s of
        None \<Rightarrow> Inl (Error ''Did you call Eleventy.init to create the TemplateWriter instance?'')
      | Some w \<Rightarrow> Inr (summaryLine time w))"

text \<open>Lines 1207 to 1213: initialise once, or wait for the initialisation under way.\<close>

definition ensureInit ::
  "buildEnv \<Rightarrow> 'a eleventy_scheme \<Rightarrow> unit outcome \<times> 'a eleventy_scheme" where
  "ensureInit env s =
     (if needsInit s then
        andThen
          (if \<not> initing s then init (initE env) False (s\<lparr> initing := True \<rparr>)
           else (case sharedInit env of Some e \<Rightarrow> (Thrown e, s) | None \<Rightarrow> (Returned (), s)))
          (\<lambda>_ s1. (Returned (), s1\<lparr> needsInit := False \<rparr>))
      else (Returned (), s))"

text \<open>Lines 1224 to 1226; without a writer the call is a \<open>TypeError\<close>.\<close>

definition passIncrementalFile :: "'a eleventy_scheme \<Rightarrow> unit outcome \<times> 'a eleventy_scheme" where
  "passIncrementalFile s =
     (if truthy (programmaticApiIncrementalFile s) then
        (case writer s of
           None \<Rightarrow> (Thrown (TypeError ''Cannot read properties of undefined''), s)
         | Some w \<Rightarrow>
             (Returned (), logE (WriterSetIncrementalFile (programmaticApiIncrementalFile s)) s))
      else (Returned (), s))"

text \<open>
  Lines 1250 to 1263: the choice of the pipeline by target, and the awaited promise. The
  pipeline counts what it writes, skips and copies on the writer.
\<close>

definition counted :: "buildEnv \<Rightarrow> templateWriter \<Rightarrow> templateWriter" where
  "counted env w =
     w\<lparr> writeCount := written env, skippedCount := skippedFiles env, copyCount := copied env \<rparr>"

definition runPipeline ::
  "buildEnv \<Rightarrow> string \<Rightarrow> 'a eleventy_scheme \<Rightarrow> jsval list outcome \<times> 'a eleventy_scheme" where
  "runPipeline env to s =
     (if to = ''fs'' \<or> to = ''json'' \<or> to = ''ndjson'' then
        (case writer s of
           None \<Rightarrow> (Thrown (TypeError ''Cannot read properties of undefined''), s)
         | Some w \<Rightarrow>
             (let s1 = logE (WriterCall to) (s\<lparr> writer := Some (counted env w) \<rparr>) in
              case pipeline env of
                Inl e \<Rightarrow> (Thrown e, s1)
              | Inr ret \<Rightarrow> (Returned ret, s1)))
      else (Thrown (Error ''Invalid argument for Eleventy->executeBuild''), s))"

text \<open>The body of the \<open>try\<close> block, lines 1232 to 1284.\<close>

definition tryBlock ::
  "buildEnv \<Rightarrow> string \<Rightarrow> 'a eleventy_scheme \<Rightarrow> buildReturn outcome \<times> 'a eleventy_scheme" where
  "tryBlock env to s =
     andThen (emit env ''beforeBuild'' s) (\<lambda>_ s1.
     andThen (emit env ''eleventy.before'' s1) (\<lambda>_ s2.
     andThen (runPipeline env to s2) (\<lambda>ret s3.
       let templateResults = tl ret;
           ret1 = (if to = ''fs''
                   then setIndex1 ret (Array (filter truthy (flat templateResults)))
                   else ret);
           ret2 = (if to = ''ndjson'' then Stream (stream env) else Results ret1)
       in
       andThen (emit env ''afterBuild'' s3) (\<lambda>_ s4.
       andThen (emit env ''eleventy.after'' s4) (\<lambda>_ s5.
         (Returned ret2, s5))))))"

text \<open>The \<open>catch\<close> block, lines 1285 to 1297 (issue 2405).\<close>

definition catchBlock ::
  "error \<Rightarrow> 'a eleventy_scheme \<Rightarrow> buildReturn outcome \<times> 'a eleventy_scheme" where
  "catchBlock e s =
     (if source s = ''script''
      then (Thrown e, logE (ErrorReported e ''Problem writing Eleventy templates'') s)
      else (Returned (ErrorObject e), logE (Fatal e ''Problem writing Eleventy templates'') s))"

text \<open>
  The \<open>finally\<close> block, lines 1298 to 1308, after the outcome \<open>r\<close> of \<open>try\<close> and
  \<open>catch\<close>: an exception of \<open>logFinished\<close> replaces that outcome.
\<close>

definition finallyBlock ::
  "buildEnv \<Rightarrow> string \<Rightarrow> bool \<Rightarrow> buildReturn outcome \<Rightarrow> 'a eleventy_scheme \<Rightarrow>
     buildReturn outcome \<times> 'a eleventy_scheme" where
  "finallyBlock env to hasError r s =
     (let s1 = logE BenchFinish s in
      if to = ''fs'' then
        (case logFinished (elapsed env) s1 of
           Inl e \<Rightarrow> (Thrown e, s1)
         | Inr line \<Rightarrow> (r, logE (Message line (if hasError then ''red'' else ''green'')) s1))
      else (r, s1))"

text \<open>The statement \<open>try ... catch ... finally\<close> as a whole.\<close>

definition tryCatchFinally ::
  "buildEnv \<Rightarrow> string \<Rightarrow> 'a eleventy_scheme \<Rightarrow> buildReturn outcome \<times> 'a eleventy_scheme" where
  "tryCatchFinally env to s =
     (case tryBlock env to s of
        (Returned ret, s1) \<Rightarrow> finallyBlock env to False (Returned ret) s1
      | (Thrown e, s1) \<Rightarrow>
          (case catchBlock e s1 of (r, s2) \<Rightarrow> finallyBlock env to True r s2))"

definition executeBuild ::
  "buildEnv \<Rightarrow> string \<Rightarrow> 'a eleventy_scheme \<Rightarrow> buildReturn outcome \<times> 'a eleventy_scheme" where
  "executeBuild env to s =
     andThen (ensureInit env s) (\<lambda>_ s1.
       let s2 = (if writer s1 = None
                 then logE (Fatal (Error ''Eleventy did not run init() properly'')
                              ''Problem writing Eleventy templates'') s1
                 else s1)
       in andThen (passIncrementalFile s2) (\<lambda>_ s3. tryCatchFinally env to s3))"

text \<open>
  \<open>write\<close> (primed, the plain name being a keyword), \<open>toJSON\<close> and \<open>toNDJSON\<close>.
\<close>

definition write' :: "buildEnv \<Rightarrow> 'a eleventy_scheme \<Rightarrow> buildReturn outcome \<times> 'a eleventy_scheme" where
  "write' env s = executeBuild env ''fs'' s"

definition toJSON :: "buildEnv \<Rightarrow> 'a eleventy_scheme \<Rightarrow> buildReturn outcome \<times> 'a eleventy_scheme" where
  "toJSON env s = executeBuild env ''json'' s"

definition toNDJSON :: "buildEnv \<Rightarrow> 'a eleventy_scheme \<Rightarrow> buildReturn outcome \<times> 'a eleventy_scheme" where
  "toNDJSON env s = executeBuild env ''ndjson'' s"

text \<open>A build pass has failed when it throws or returns the object \<open>{error: e}\<close>.\<close>

fun isFailure :: "buildReturn outcome \<Rightarrow> bool" where
  "isFailure (Thrown e) = True"
| "isFailure (Returned (ErrorObject e)) = True"
| "isFailure (Returned (Results ret)) = False"
| "isFailure (Returned (Stream v)) = False"

text \<open>The two events of the finalisation step: the telemetry and the summary line.\<close>

fun isBenchFinish :: "event \<Rightarrow> bool" where
  "isBenchFinish BenchFinish = True"
| "isBenchFinish ev = False"

fun isMessage :: "event \<Rightarrow> bool" where
  "isMessage (Message line colour) = True"
| "isMessage ev = False"

text \<open>
  A sample build: an initialised command-line instance and a pipeline that fails with a
  template error after having written one file.
\<close>

definition sampleReady :: "string \<Rightarrow> eleventy" where
  "sampleReady src =
     (newEleventy src)
       \<lparr> needsInit := False, hasConfigInitialized := True,
          writer := Some sampleWriter, watchManager := Some newEleventyWatch \<rparr>"

definition sampleFailingBuild :: buildEnv where
  "sampleFailingBuild =
     \<lparr> initE = sampleInitEnv, sharedInit = None, listeners = (\<lambda>name. None),
       pipeline = Inl (EleventyBaseError ''Having trouble rendering template''),
       written = 1, skippedFiles = 0, copied = 2,
       stream = Undefined, elapsed = ''0.05'' \<rparr>"

text \<open>A sample build that succeeds with two results for one template and none for another.\<close>

definition sampleBuild :: buildEnv where
  "sampleBuild =
     \<lparr> initE = sampleInitEnv, sharedInit = None, listeners = (\<lambda>name. None),
       pipeline = Inr [Array [], Array [Object 1, Object 2], Undefined],
       written = 2, skippedFiles = 0, copied = 0,
       stream = Object 9, elapsed = ''0.05'' \<rparr>"

section \<open>The watch loop\<close>

text \<open>
  The state of a watching process: the instance; the pending timer \<open>watchDelay\<close> of
  \<open>watch\<close>, with the \<open>isResetConfig\<close> that its callback has captured; the argument
  \<open>isResetConfig\<close> of the invocation of \<open>_watch\<close> that is suspended in its build; the
  number of invocations of \<open>_watch\<close> that have passed the guard of line 834 and have
  neither reached line 909 nor thrown (a counter that the code does not keep); and
  whether \<open>stopWatch\<close> has ended the process.
\<close>

record watching =
  elev :: eleventy
  watchDelay :: "bool option"
  inFlightReset :: bool
  cycles :: nat
  stopped :: bool

text \<open>
  \<open>initWatch\<close> and the registration of the handlers in \<open>watch\<close>, after an initial
  build that has left the instance \<open>s\<close>: a new watch manager, no timer, nothing in
  flight.
\<close>

definition initWatch :: "eleventy \<Rightarrow> watching" where
  "initWatch s =
     \<lparr> elev = s\<lparr> watchManager := Some (newEleventyWatch\<lparr> incremental := isIncremental s \<rparr>) \<rparr>,
       watchDelay = None, inFlightReset = False, cycles = 0, stopped = False \<rparr>"

text \<open>
  \<open>_addFileToWatchQueue\<close>: the synchronous event, then the pending queue. The function
  is \<open>async\<close> and its caller does not await it, so a \<open>TypeError\<close> for a missing watch
  manager is lost with its promise.
\<close>

definition addFileToWatchQueue ::
  "'a collab_scheme \<Rightarrow> path \<Rightarrow> bool \<Rightarrow> eleventy \<Rightarrow> eleventy" where
  "addFileToWatchQueue E changedFilePath isResetConfig s =
     (let s1 = logE (ResourceModified changedFilePath isResetConfig) s in
      case watchManager s1 of
        None \<Rightarrow> s1
      | Some wm \<Rightarrow> s1\<lparr> watchManager := Some (addToPendingQueue E changedFilePath wm) \<rparr>)"

text \<open>
  \<open>watchRun\<close>, from a notification of the watcher to the \<open>await\<close> of line 1112:
  \<open>clearTimeout\<close> drops the pending timer and \<open>setTimeout\<close> starts the one that holds
  this notification's \<open>isResetConfig\<close>.
\<close>

definition watchRun :: "'a collab_scheme \<Rightarrow> path \<Rightarrow> watching \<Rightarrow> watching" where
  "watchRun E rawPath s =
     (let path = normalize E rawPath;
          isResetConfig = shouldResetConfig E [path];
          s1 = s\<lparr> elev := addFileToWatchQueue E path isResetConfig (elev s) \<rparr>
      in s1\<lparr> watchDelay := Some isResetConfig \<rparr>)"

text \<open>
  \<open>_watch\<close> from its entry to its first \<open>await\<close> (lines 834 to 842): the guard, the
  flag, the snapshot of the queue. The result tells whether a cycle has begun.
\<close>

definition watchBegin :: "bool \<Rightarrow> watching \<Rightarrow> bool outcome \<times> watching" where
  "watchBegin isResetConfig s =
     (case watchManager (elev s) of
        None \<Rightarrow> (Thrown (TypeError ''Cannot read properties of undefined''), s)
      | Some wm \<Rightarrow>
          if isBuildRunning wm then (Returned False, s)
          else (Returned True,
                s\<lparr> elev := (elev s)\<lparr> watchManager := Some (setBuildRunning wm) \<rparr>,
                   inFlightReset := isResetConfig,
                   cycles := Suc (cycles s) \<rparr>))"

text \<open>
  What the rest of one cycle gets from its collaborators: whether \<open>resetConfig\<close> or
  \<open>restart\<close> throws; what \<open>watchManager.getIncrementalFile()\<close> returns, a method of
  which the specification says nothing; the environment of the build (its listeners are
  those of \<open>config.events\<close>, its \<open>init\<close> that of line 854); the \<open>url\<close> property of
  every result entry, by identity; whether a step of lines 870 to 875 throws; whether
  the promise of \<open>eleventyServe.reload\<close> rejects.
\<close>

record cycleEnv =
  restartFailure :: "error option"
  incrementalFile :: jsval
  build :: buildEnv
  urls :: "nat \<Rightarrow> jsval"
  afterWriteFailure :: "error option"
  reloadFailure :: "error option"

text \<open>Lines 842 to 853.\<close>

definition prepareCycle ::
  "cycleEnv \<Rightarrow> bool \<Rightarrow> eleventy \<Rightarrow> unit outcome \<times> eleventy" where
  "prepareCycle env isResetConfig s =
     andThen (emit (build env) ''beforeWatch'' s) (\<lambda>_ s1.
     andThen (emit (build env) ''eleventy.beforeWatch'' s1) (\<lambda>_ s2.
       let s3 = (if isResetConfig then logE ResetConfig s2 else s2);
           s4 = logE Restart s3
       in (case restartFailure env of Some e \<Rightarrow> (Thrown e, s4) | None \<Rightarrow> (Returned (), s4))))"

text \<open>
  Lines 863 to 866: \<open>templateResults\<close> is what follows the first element of the array
  that \<open>write\<close> has returned; it stays undefined for \<open>{error: e}\<close>.
\<close>

definition destructure :: "buildReturn \<Rightarrow> eleventy \<Rightarrow> jsval list option outcome \<times> eleventy" where
  "destructure writeResults s =
     (case writeResults of
        Results ret \<Rightarrow> (Returned (Some (tl ret)), s)
      | ErrorObject e \<Rightarrow> (Returned None, s)
      | Stream v \<Rightarrow> (Thrown (TypeError ''writeResults is not iterable''), s))"

text \<open>Lines 856 to 859.\<close>

definition passQueuedFile :: "cycleEnv \<Rightarrow> eleventy \<Rightarrow> unit outcome \<times> eleventy" where
  "passQueuedFile env s =
     (if truthy (incrementalFile env) then
        (case writer s of
           None \<Rightarrow> (Thrown (TypeError ''Cannot read properties of undefined''), s)
         | Some w \<Rightarrow> (Returned (), logE (WriterSetIncrementalFile (incrementalFile env)) s))
      else (Returned (), s))"

text \<open>Lines 868 to 875.\<close>

definition afterWrite :: "cycleEnv \<Rightarrow> eleventy \<Rightarrow> unit outcome \<times> eleventy" where
  "afterWrite env s =
     (case writer s of
        None \<Rightarrow> (Thrown (TypeError ''Cannot read properties of undefined''), s)
      | Some w \<Rightarrow>
         (let s1 = logE WriterResetIncrementalFile s in
          case afterWriteFailure env of Some e \<Rightarrow> (Thrown e, s1) | None \<Rightarrow> (Returned (), s1)))"

text \<open>\<open>String.prototype.endsWith\<close>\<close>

definition endsWith :: "string \<Rightarrow> string \<Rightarrow> bool" where
  "endsWith s suffix =
     (length suffix \<le> length s \<and> drop (length s - length suffix) s = suffix)"

text \<open>The callback of line 880.\<close>

definition isCssChange :: "'a collab_scheme \<Rightarrow> path \<Rightarrow> bool" where
  "isCssChange E p = (endsWith p ''.css'' \<and> \<not> startsWithSubPath E p (getIncludesDir E))"

text \<open>
  The callback of \<open>map\<close> in lines 901 to 904, along the array: \<open>entry.url = ...\<close>
  updates the entry object in place, so an entry that occurs twice is rewritten twice.
  The file is a module, hence strict: the assignment throws for a primitive value. An
  array takes the property, which its elements do not show.
\<close>

fun rewriteUrls ::
  "(jsval \<Rightarrow> jsval) \<Rightarrow> jsval list \<Rightarrow> (nat \<Rightarrow> jsval) \<Rightarrow> error option \<times> (nat \<Rightarrow> jsval)" where
  "rewriteUrls j [] st = (None, st)"
| "rewriteUrls j (Object r # entries) st = rewriteUrls j entries (st(r := j (st r)))"
| "rewriteUrls j (Array vs # entries) st = rewriteUrls j entries st"
| "rewriteUrls j (v # entries) st = (Some (TypeError ''Cannot create property url''), st)"

text \<open>An element of the published array, with the \<open>url\<close> of an entry as it is by then.\<close>

fun itemOf :: "(nat \<Rightarrow> jsval) \<Rightarrow> jsval \<Rightarrow> item" where
  "itemOf st (Object r) = Entry r (st r)"
| "itemOf st v = Plain v"

text \<open>Lines 880 to 907.\<close>

definition publish ::
  "'a collab_scheme \<Rightarrow> cycleEnv \<Rightarrow> buildReturn \<Rightarrow> jsval list option \<Rightarrow> eleventy \<Rightarrow>
     unit outcome \<times> eleventy" where
  "publish E env writeResults templateResults s =
     (case watchManager s of
        None \<Rightarrow> (Thrown (TypeError ''Cannot read properties of undefined''), s)
      | Some wm \<Rightarrow>
         (let onlyCssChanges = hasAllQueueFiles wm (isCssChange E) in
          case writeResults of
            ErrorObject e \<Rightarrow> (Returned (), logE (SendError e) s)
          | _ \<Rightarrow>
             (case templateResults of
                None \<Rightarrow> (Thrown (TypeError ''Cannot read properties of undefined''), s)
              | Some rs \<Rightarrow>
                 (let normalizedPathPrefix = normalizePathPrefix E (pathPrefix E);
                      entries = filter truthy (flat rs)
                  in case rewriteUrls (joinUrlParts E normalizedPathPrefix) entries (urls env) of
                       (Some e, st) \<Rightarrow> (Thrown e, s)
                     | (None, st) \<Rightarrow>
                        (let s1 = logE (Reload \<lparr> files = getActiveQueue wm,
                                               subtype = (if onlyCssChanges then Some ''css'' else None),
                                               templates = map (itemOf st) entries \<rparr>) s
                         in case reloadFailure env of
                              Some e \<Rightarrow> (Thrown e, s1)
                            | None \<Rightarrow> (Returned (), s1))))))"

text \<open>
  \<open>_watch\<close> from its first \<open>await\<close> to the one of line 894: the cycle up to the
  publication of its result.
\<close>

definition runCycle ::
  "'a collab_scheme \<Rightarrow> cycleEnv \<Rightarrow> bool \<Rightarrow> eleventy \<Rightarrow> unit outcome \<times> eleventy" where
  "runCycle E env isResetConfig s =
     andThen (prepareCycle env isResetConfig s) (\<lambda>_ s1.
     andThen (init (initE (build env)) isResetConfig s1) (\<lambda>_ s1a.
     andThen (passQueuedFile env s1a) (\<lambda>_ s2.
     andThen (write' (build env) s2) (\<lambda>writeResults s3.
     andThen (destructure writeResults s3) (\<lambda>templateResults s4.
     andThen (afterWrite env s4) (\<lambda>_ s5.
       publish E env writeResults templateResults s5))))))"

text \<open>
  Lines 909 to 921: the flag is cleared; if paths have been queued meanwhile, \<open>_watch\<close>
  calls itself, with no argument, hence with \<open>isResetConfig = false\<close>.
\<close>

definition finishCycle :: "watching \<Rightarrow> unit outcome \<times> watching" where
  "finishCycle s =
     (case watchManager (elev s) of
        None \<Rightarrow> (Thrown (TypeError ''Cannot read properties of undefined''), s)
      | Some wm \<Rightarrow>
         (let wm1 = setBuildFinished wm;
              s1 = s\<lparr> elev := (elev s)\<lparr> watchManager := Some wm1 \<rparr> \<rparr>;
              queueSize = getPendingQueueSize wm1
          in if queueSize > 0 then
               andThen
                 (watchBegin False
                    (s1\<lparr> elev := logE (LogRunAgain queueSize) (elev s1) \<rparr>))
                 (\<lambda>_ s2. (Returned (), s2))
             else (Returned (), s1\<lparr> elev := logE (Log ''Watching...'') (elev s1) \<rparr>)))"

text \<open>
  The invocation of \<open>_watch\<close> in flight, resumed and run to its end or to its
  exception; with that it stops counting as in flight.
\<close>

definition watchEnd :: "'a collab_scheme \<Rightarrow> cycleEnv \<Rightarrow> watching \<Rightarrow> unit outcome \<times> watching" where
  "watchEnd E env s =
     (let s0 = s\<lparr> cycles := cycles s - 1 \<rparr> in
      case runCycle E env (inFlightReset s0) (elev s0) of
        (Thrown e, i) \<Rightarrow> (Thrown e, s0\<lparr> elev := i \<rparr>)
      | (Returned u, i) \<Rightarrow> finishCycle (s0\<lparr> elev := i \<rparr>))"

text \<open>The \<open>catch\<close> block of \<open>watchRun\<close>, lines 1117 to 1125.\<close>

definition watchRunCatch :: "error \<Rightarrow> watching \<Rightarrow> watching" where
  "watchRunCatch e s =
     (if isEleventyBaseError e then
        (let i = logE (ErrorReported e ''Eleventy watch error'') (elev s) in
         case watchManager i of
           None \<Rightarrow> s\<lparr> elev := i \<rparr>
         | Some wm \<Rightarrow> s\<lparr> elev := i\<lparr> watchManager := Some (setBuildFinished wm) \<rparr> \<rparr>)
      else
        s\<lparr> elev := logE StopWatch (logE (Fatal e ''Eleventy fatal watch error'') (elev s)),
           stopped := True \<rparr>)"

text \<open>
  What can happen to a watching process: the watcher notifies a change or an addition;
  the pending timer fires; the cycle in flight is resumed and runs to its end.
\<close>

datatype input = Notify path | TimerFires | CycleEnds cycleEnv

definition step :: "'a collab_scheme \<Rightarrow> input \<Rightarrow> watching \<Rightarrow> watching" where
  "step E i s =
     (if stopped s then s
      else case i of
        Notify p \<Rightarrow> watchRun E p s
      | TimerFires \<Rightarrow>
          (case watchDelay s of
             None \<Rightarrow> s
           | Some isResetConfig \<Rightarrow>
               (case watchBegin isResetConfig (s\<lparr> watchDelay := None \<rparr>) of
                  (Thrown e, s1) \<Rightarrow> watchRunCatch e s1
                | (Returned b, s1) \<Rightarrow> s1))
      | CycleEnds env \<Rightarrow>
          (if cycles s = 0 then s
           else case watchEnd E env s of
                  (Thrown e, s1) \<Rightarrow> watchRunCatch e s1
                | (Returned u, s1) \<Rightarrow> s1))"

text \<open>A run of the process: the inputs in the order in which they happen.\<close>

definition run :: "'a collab_scheme \<Rightarrow> input list \<Rightarrow> watching \<Rightarrow> watching" where
  "run E inputs s = fold (step E) inputs s"

section \<open>Predicates used in the proofs\<close>

text \<open>
  A call on an instance whose configuration is initialised leaves it initialised and
  leaves its watch manager alone.
\<close>

definition framed :: "'a eleventy_scheme \<Rightarrow> 'a eleventy_scheme \<Rightarrow> bool" where
  "framed s s' \<longleftrightarrow>
     (hasConfigInitialized s \<longrightarrow> hasConfigInitialized s' \<and> watchManager s' = watchManager s)"

text \<open>
  The invariant of a watching process: the configuration is initialised, there is a watch
  manager, and the number of cycles in flight is one if the flag \<open>buildRunning\<close> is set
  and the process has not been stopped, and zero otherwise.
\<close>

definition watchInv :: "watching \<Rightarrow> bool" where
  "watchInv s \<longleftrightarrow>
     hasConfigInitialized (elev s) \<and>
     (case watchManager (elev s) of
        None \<Rightarrow> False
      | Some wm \<Rightarrow> cycles s = (if buildRunning wm \<and> \<not> stopped s then 1 else 0))"

text \<open>
  Sample cycles: the rest of a cycle whose build is \<open>sampleBuild\<close> or
  \<open>sampleFailingBuild\<close>, with nothing else going wrong; the entries \<open>1\<close> and \<open>2\<close> have
  the URLs \<open>/a/\<close> and \<open>/b/\<close>.
\<close>

definition sampleUrls :: "nat \<Rightarrow> jsval" where
  "sampleUrls r = (if r = 1 then String ''/a/'' else if r = 2 then String ''/b/'' else Undefined)"

definition sampleCycle :: cycleEnv where
  "sampleCycle =
     \<lparr> restartFailure = None, incrementalFile = Boolean False, build = sampleBuild,
       urls = sampleUrls,
       afterWriteFailure = None, reloadFailure = None \<rparr>"

definition sampleFailingCycle :: cycleEnv where
  "sampleFailingCycle =
     \<lparr> restartFailure = None, incrementalFile = Boolean False, build = sampleFailingBuild,
       urls = sampleUrls,
       afterWriteFailure = None, reloadFailure = None \<rparr>"

text \<open>
  Sample processes: a change of \<open>a.css\<close> has been notified and its timer has fired, so a
  cycle is in flight; and then \<open>c.liquid\<close> changes during that cycle.
\<close>

definition sampleRunning :: "string \<Rightarrow> watching" where
  "sampleRunning src =
     run sampleProject [Notify ''a.css'', TimerFires] (initWatch (sampleReady src))"

definition sampleSavedMeanwhile :: "string \<Rightarrow> watching" where
  "sampleSavedMeanwhile src = step sampleProject (Notify ''c.liquid'') (sampleRunning src)"

text \<open>The values on which the assignment \<open>entry.url = ...\<close> does not throw.\<close>

fun takesProperty :: "jsval \<Rightarrow> bool" where
  "takesProperty (Object r) = True"
| "takesProperty (Array vs) = True"
| "takesProperty v = False"

text \<open>A sample watch manager in a cycle for two style sheets.\<close>

definition sampleStyles :: EleventyWatch where
  "sampleStyles =
     \<lparr> incremental = False, buildRunning = True,
       activeQueue = [''./a.css'', ''./css/b.css''], pendingQueue = [] \<rparr>"

definition sampleStylesInstance :: eleventy where
  "sampleStylesInstance = (sampleReady ''cli'')\<lparr> watchManager := Some sampleStyles \<rparr>"


text \<open>
  A sample build of two templates with one result each, the pipeline returning one array
  for each template after the results of the passthrough copy; and the rest of a cycle
  with that build.
\<close>

definition sampleTwoTemplates :: buildEnv where
  "sampleTwoTemplates = sampleBuild\<lparr> pipeline := Inr [Array [], Array [Object 1], Array [Object 2]] \<rparr>"

definition sampleTwoTemplatesCycle :: cycleEnv where
  "sampleTwoTemplatesCycle = sampleCycle\<lparr> build := sampleTwoTemplates \<rparr>"

fun isReload :: "event \<Rightarrow> bool" where
  "isReload (Reload p) = True"
| "isReload ev = False"

section \<open>Properties of the configuration-reset gate\<close>










section \<open>Properties of the setters\<close>




text \<open>
  Before \<open>initializeConfig\<close> has created the watch manager, the call with a truthy path
  stops at the assignment to \<open>this.watchManager.incremental\<close>: the two flags are already
  set and the path is not recorded.
\<close>

lemma setIncrementalFile_without_watchManager:
  "truthy f \<Longrightarrow> watchManager s = None \<Longrightarrow>
     setIncrementalFile f s =
       (Thrown (TypeError ''Cannot set properties of undefined''),
        s\<lparr> isRunInitialBuild := False, isIncremental := True \<rparr>)"
  by (simp add: setIncrementalFile_def setIncrementalBuild_def setIgnoreInitial_def andThen_def)

section \<open>Properties of the carryover cache\<close>










section \<open>Properties of a build pass\<close>

lemma trace_logE [simp]: "trace (logE ev s) = trace s @ [ev]"
  by (simp add: logE_def)

lemma writer_logE [simp]: "writer (logE ev s) = writer s"
  by (simp add: logE_def)

lemma source_logE [simp]: "source (logE ev s) = source s"
  by (simp add: logE_def)

lemma passIncrementalFile_ok:
  "writer s = Some w \<Longrightarrow>
     passIncrementalFile s =
       (Returned (),
        if truthy (programmaticApiIncrementalFile s)
        then logE (WriterSetIncrementalFile (programmaticApiIncrementalFile s)) s else s)"
  by (simp add: passIncrementalFile_def)

lemma sampleReady_ensureInit:
  "ensureInit env (sampleReady src) = (Returned (), sampleReady src)"
  by (simp add: ensureInit_def sampleReady_def)

lemma emit_cases:
  "emit env name s = (Returned (), logE (Emit name) s) \<or>
   (\<exists>e. emit env name s = (Thrown e, logE (Emit name) s))"
  by (cases "listeners env name") (simp_all add: emit_def)

lemma runPipeline_cases:
  assumes "writer s = Some w"
  shows "(\<exists>r. runPipeline env to s = (r, s) \<and> (\<exists>e. r = Thrown e)) \<or>
         (\<exists>r. runPipeline env to s =
                (r, logE (WriterCall to) (s\<lparr> writer := Some (counted env w) \<rparr>)))"
  using assms by (cases "pipeline env") (auto simp: runPipeline_def Let_def)

lemma tryBlock_trace:
  assumes "writer s = Some w"
  shows "\<exists>r s' evs w'. tryBlock env to s = (r, s') \<and> writer s' = Some w' \<and>
           source s' = source s \<and>
           trace s' = trace s @ evs \<and>
           (\<forall>ev \<in> set evs. \<not> isBenchFinish ev \<and> \<not> isMessage ev) \<and>
           (isFailure r \<longleftrightarrow> (\<exists>e. r = Thrown e))"
proof -
  let ?s1 = "logE (Emit ''beforeBuild'') s"
  let ?s2 = "logE (Emit ''eleventy.before'') ?s1"
  from emit_cases [of env "''beforeBuild''" s] show ?thesis
  proof
    assume "\<exists>e. emit env ''beforeBuild'' s = (Thrown e, ?s1)"
    then show ?thesis using assms by (auto simp: tryBlock_def andThen_def)
  next
    assume a1: "emit env ''beforeBuild'' s = (Returned (), ?s1)"
    from emit_cases [of env "''eleventy.before''" ?s1] show ?thesis
    proof
      assume "\<exists>e. emit env ''eleventy.before'' ?s1 = (Thrown e, ?s2)"
      then show ?thesis using assms a1 by (auto simp: tryBlock_def andThen_def)
    next
      assume a2: "emit env ''eleventy.before'' ?s1 = (Returned (), ?s2)"
      have w2: "writer ?s2 = Some w" using assms by simp
      from runPipeline_cases [OF w2, of env to] show ?thesis
      proof
        assume "\<exists>r. runPipeline env to ?s2 = (r, ?s2) \<and> (\<exists>e. r = Thrown e)"
        then show ?thesis using assms a1 a2 by (auto simp: tryBlock_def andThen_def)
      next
        assume "\<exists>r. runPipeline env to ?s2 =
                (r, logE (WriterCall to) (?s2\<lparr> writer := Some (counted env w) \<rparr>))"
        then obtain r where a3: "runPipeline env to ?s2 =
                (r, logE (WriterCall to) (?s2\<lparr> writer := Some (counted env w) \<rparr>))" by blast
        let ?s3 = "logE (WriterCall to) (?s2\<lparr> writer := Some (counted env w) \<rparr>)"
        show ?thesis
        proof (cases r)
          case (Thrown e)
          then show ?thesis using a1 a2 a3 by (auto simp: tryBlock_def andThen_def logE_def)
        next
          case (Returned ret)
          then show ?thesis
            using a1 a2 a3 emit_cases [of env "''afterBuild''" ?s3]
              emit_cases [of env "''eleventy.after''" "logE (Emit ''afterBuild'') ?s3"]
            by (auto simp: tryBlock_def andThen_def Let_def logE_def)
        qed
      qed
    qed
  qed
qed

text \<open>
  Claim C5. When the build has come as far as the write pipeline and the pipeline throws
  \<open>e\<close>, the error is reported in every case: by \<open>errorHandler.error\<close> and thrown on to
  the caller if the source is \<open>script\<close>, by \<open>errorHandler.fatal\<close> and returned as
  \<open>{error: e}\<close> otherwise, so that it is thrown on exactly when the source is
  \<open>script\<close>. In both cases \<open>bench.finish\<close> has run by the time the call ends, after the
  report.
\<close>

theorem executeBuild_pipeline_error:
  assumes init: "ensureInit env s = (Returned (), s1)"
    and w: "writer s1 = Some w"
    and l1: "listeners env ''beforeBuild'' = None"
    and l2: "listeners env ''eleventy.before'' = None"
    and tgt: "to = ''fs'' \<or> to = ''json'' \<or> to = ''ndjson''"
    and fail: "pipeline env = Inl e"
  shows
    "fst (executeBuild env to s) =
       (if source s1 = ''script'' then Thrown e else Returned (ErrorObject e))
     \<and> (fst (executeBuild env to s) = Thrown e \<longleftrightarrow> source s1 = ''script'')
     \<and> trace (snd (executeBuild env to s)) =
         trace s1
         @ (if truthy (programmaticApiIncrementalFile s1)
            then [WriterSetIncrementalFile (programmaticApiIncrementalFile s1)] else [])
         @ [Emit ''beforeBuild'', Emit ''eleventy.before'', WriterCall to,
            if source s1 = ''script''
            then ErrorReported e ''Problem writing Eleventy templates''
            else Fatal e ''Problem writing Eleventy templates'',
            BenchFinish]
         @ (if to = ''fs''
            then [Message (summaryLine (elapsed env) (counted env w)) ''red''] else [])"
  using assms
  by (auto simp: executeBuild_def tryCatchFinally_def andThen_def passIncrementalFile_ok tryBlock_def emit_def
      runPipeline_def Let_def catchBlock_def finallyBlock_def logFinished_def)

theorem executeBuild_pipeline_error_witness:
  "ensureInit sampleFailingBuild (sampleReady ''script'') = (Returned (), sampleReady ''script'')
   \<and> writer (sampleReady ''script'') = Some sampleWriter
   \<and> listeners sampleFailingBuild ''beforeBuild'' = None
   \<and> listeners sampleFailingBuild ''eleventy.before'' = None
   \<and> pipeline sampleFailingBuild = Inl (EleventyBaseError ''Having trouble rendering template'')
   \<and> fst (executeBuild sampleFailingBuild ''fs'' (sampleReady ''script'')) =
        Thrown (EleventyBaseError ''Having trouble rendering template'')
   \<and> trace (snd (executeBuild sampleFailingBuild ''fs'' (sampleReady ''script''))) =
        [Emit ''beforeBuild'', Emit ''eleventy.before'', WriterCall ''fs'',
         ErrorReported (EleventyBaseError ''Having trouble rendering template'')
           ''Problem writing Eleventy templates'',
         BenchFinish,
         Message [Copied 2, Wrote 1 None, InTime ''0.05'', Version] ''red'']
   \<and> fst (executeBuild sampleFailingBuild ''fs'' (sampleReady ''cli'')) =
        Returned (ErrorObject (EleventyBaseError ''Having trouble rendering template''))"
proof -
  have h1: "ensureInit sampleFailingBuild (sampleReady ''script'') = (Returned (), sampleReady ''script'')"
    by (rule sampleReady_ensureInit)
  have h1': "ensureInit sampleFailingBuild (sampleReady ''cli'') = (Returned (), sampleReady ''cli'')"
    by (rule sampleReady_ensureInit)
  have h2: "writer (sampleReady ''script'') = Some sampleWriter"
    by (simp add: sampleReady_def)
  have h2': "writer (sampleReady ''cli'') = Some sampleWriter"
    by (simp add: sampleReady_def)
  have h3: "listeners sampleFailingBuild ''beforeBuild'' = None"
    by (simp add: sampleFailingBuild_def)
  have h4: "listeners sampleFailingBuild ''eleventy.before'' = None"
    by (simp add: sampleFailingBuild_def)
  have h5: "''fs'' = ''fs'' \<or> ''fs'' = ''json'' \<or> ''fs'' = ''ndjson''"
    by simp
  have h6: "pipeline sampleFailingBuild = Inl (EleventyBaseError ''Having trouble rendering template'')"
    by (simp add: sampleFailingBuild_def)
  note a = executeBuild_pipeline_error [OF h1 h2 h3 h4 h5 h6]
  note b = executeBuild_pipeline_error [OF h1' h2' h3 h4 h5 h6]
  have c1: "fst (executeBuild sampleFailingBuild ''fs'' (sampleReady ''script'')) =
        Thrown (EleventyBaseError ''Having trouble rendering template'')"
    using a by (simp add: sampleReady_def newEleventy_def)
  have c2: "trace (snd (executeBuild sampleFailingBuild ''fs'' (sampleReady ''script''))) =
        [Emit ''beforeBuild'', Emit ''eleventy.before'', WriterCall ''fs'',
         ErrorReported (EleventyBaseError ''Having trouble rendering template'')
           ''Problem writing Eleventy templates'',
         BenchFinish,
         Message [Copied 2, Wrote 1 None, InTime ''0.05'', Version] ''red'']"
    using a
    by (simp add: sampleReady_def newEleventy_def sampleFailingBuild_def summaryLine_def
        counted_def sampleWriter_def)
  have c3: "fst (executeBuild sampleFailingBuild ''fs'' (sampleReady ''cli'')) =
        Returned (ErrorObject (EleventyBaseError ''Having trouble rendering template''))"
    using b by (simp add: sampleReady_def newEleventy_def)
  from h1 h2 h3 h4 h6 c1 c2 c3 show ?thesis by blast
qed

text \<open>
  Claim C6, as the code has it. A build pass that has a writer (initialisation done or
  not needed) finalises the telemetry exactly once, whatever the target and the outcome;
  after that it prints the summary line, once, if the target is \<open>fs\<close>, and no summary
  line for any other target. The line holds the counters of the writer and the elapsed
  time whether or not the pass failed; failure only turns green into red.
\<close>

theorem executeBuild_finalization:
  assumes init: "ensureInit env s = (Returned (), s1)"
    and w: "writer s1 = Some w"
  shows
    "\<exists>r s' evs w'. executeBuild env to s = (r, s') \<and> writer s' = Some w' \<and>
        trace s' =
          trace s1 @ evs @ [BenchFinish] @
          (if to = ''fs''
           then [Message (summaryLine (elapsed env) w') (if isFailure r then ''red'' else ''green'')]
           else []) \<and>
        (\<forall>ev \<in> set evs. \<not> isBenchFinish ev \<and> \<not> isMessage ev)"
proof -
  let ?f = "programmaticApiIncrementalFile s1"
  let ?s3 = "if truthy ?f then logE (WriterSetIncrementalFile ?f) s1 else s1"
  let ?pre = "if truthy ?f then [WriterSetIncrementalFile ?f] else []"
  have w3: "writer ?s3 = Some w" using w by simp
  have t3: "trace ?s3 = trace s1 @ ?pre" by simp
  from tryBlock_trace [OF w3, of env to]
  obtain r s4 evs w4 where tb: "tryBlock env to ?s3 = (r, s4)" and w4: "writer s4 = Some w4"
    and src: "source s4 = source ?s3"
    and tr: "trace s4 = trace ?s3 @ evs"
    and q: "\<forall>ev \<in> set evs. \<not> isBenchFinish ev \<and> \<not> isMessage ev"
    and f: "isFailure r \<longleftrightarrow> (\<exists>e. r = Thrown e)"
    by blast
  have eb: "executeBuild env to s =
      (case r of Returned ret \<Rightarrow> finallyBlock env to False (Returned ret) s4
       | Thrown e \<Rightarrow> (case catchBlock e s4 of (r', s5) \<Rightarrow> finallyBlock env to True r' s5))"
    using init w tb by (simp add: executeBuild_def tryCatchFinally_def andThen_def passIncrementalFile_ok)
  show ?thesis
  proof (cases r)
    case (Returned ret)
    with f have nf: "\<not> isFailure (Returned ret)" by simp
    let ?s5 = "logE BenchFinish s4"
    let ?s6 = "if to = ''fs''
               then logE (Message (summaryLine (elapsed env) w4) ''green'') ?s5 else ?s5"
    have "executeBuild env to s = (Returned ret, ?s6)"
      using Returned w4 by (simp add: eb finallyBlock_def Let_def logFinished_def)
    moreover have "writer ?s6 = Some w4" using w4 by simp
    moreover have "trace ?s6 = trace s1 @ (?pre @ evs) @ [BenchFinish] @
          (if to = ''fs''
           then [Message (summaryLine (elapsed env) w4)
                   (if isFailure (Returned ret) then ''red'' else ''green'')]
           else [])"
      using nf tr t3 by simp
    moreover have "\<forall>ev \<in> set (?pre @ evs). \<not> isBenchFinish ev \<and> \<not> isMessage ev"
      using q by auto
    ultimately show ?thesis by blast
  next
    case (Thrown e)
    let ?rep = "if source s4 = ''script''
           then ErrorReported e ''Problem writing Eleventy templates''
           else Fatal e ''Problem writing Eleventy templates''"
    let ?r = "if source s4 = ''script'' then Thrown e else Returned (ErrorObject e)"
    let ?s5 = "logE BenchFinish (logE ?rep s4)"
    let ?s6 = "if to = ''fs''
               then logE (Message (summaryLine (elapsed env) w4) ''red'') ?s5 else ?s5"
    have "executeBuild env to s = (?r, ?s6)"
      using Thrown w4
      by (simp add: eb finallyBlock_def Let_def logFinished_def catchBlock_def)
    moreover have "writer ?s6 = Some w4" using w4 by simp
    moreover have fr: "isFailure ?r" by simp
    have "trace ?s6 = trace s1 @ (?pre @ evs @ [?rep]) @ [BenchFinish] @
          (if to = ''fs''
           then [Message (summaryLine (elapsed env) w4)
                   (if isFailure ?r then ''red'' else ''green'')]
           else [])"
      using tr t3 by (simp only: fr) simp
    moreover have "\<forall>ev \<in> set (?pre @ evs @ [?rep]). \<not> isBenchFinish ev \<and> \<not> isMessage ev"
      using q by auto
    ultimately show ?thesis by blast
  qed
qed

theorem executeBuild_finalization_witness:
  "ensureInit sampleFailingBuild (sampleReady ''cli'') = (Returned (), sampleReady ''cli'')
   \<and> writer (sampleReady ''cli'') = Some sampleWriter
   \<and> (\<exists>r s' evs w'. executeBuild sampleFailingBuild ''fs'' (sampleReady ''cli'') = (r, s') \<and>
        writer s' = Some w' \<and>
        trace s' =
          trace (sampleReady ''cli'') @ evs @ [BenchFinish] @
          (if ''fs'' = ''fs''
           then [Message (summaryLine (elapsed sampleFailingBuild) w')
                   (if isFailure r then ''red'' else ''green'')]
           else []) \<and>
        (\<forall>ev \<in> set evs. \<not> isBenchFinish ev \<and> \<not> isMessage ev))"
proof -
  have h1: "ensureInit sampleFailingBuild (sampleReady ''cli'') = (Returned (), sampleReady ''cli'')"
    by (rule sampleReady_ensureInit)
  have h2: "writer (sampleReady ''cli'') = Some sampleWriter"
    by (simp add: sampleReady_def)
  from h1 h2 executeBuild_finalization [OF h1 h2, of "''fs''"] show ?thesis by blast
qed

text \<open>
  Against C6 as it is stated: for the targets \<open>json\<close> and \<open>ndjson\<close> no summary line is
  printed, on success or on failure, the call of \<open>logger.message\<close> being guarded by
  \<open>to === "fs"\<close>.
\<close>

theorem executeBuild_json_no_summary:
  "filter isMessage (trace (snd (executeBuild sampleBuild ''json'' (sampleReady ''cli'')))) = []
   \<and> filter isMessage
        (trace (snd (executeBuild sampleFailingBuild ''ndjson'' (sampleReady ''cli'')))) = []"
  by (simp add: executeBuild_def tryCatchFinally_def ensureInit_def andThen_def passIncrementalFile_def
      tryBlock_def emit_def runPipeline_def Let_def catchBlock_def finallyBlock_def
      sampleReady_def newEleventy_def sampleBuild_def sampleFailingBuild_def logE_def)

section \<open>Properties of the watch loop\<close>

lemma framed_refl [simp]: "framed s s"
  by (simp add: framed_def)

lemma framed_trans: "framed s s1 \<Longrightarrow> framed s1 s2 \<Longrightarrow> framed s s2"
  by (auto simp: framed_def)

lemma framed_logE [simp]: "framed s (logE ev s)"
  by (simp add: framed_def logE_def)

lemma framed_andThen:
  assumes "framed s (snd m)"
    and "\<And>a s1. framed s s1 \<Longrightarrow> framed s (snd (f a s1))"
  shows "framed s (snd (andThen m f))"
proof (cases m)
  case (Pair r s1)
  then show ?thesis using assms by (cases r) (auto simp: andThen_def)
qed

lemma framed_emit: "framed s (snd (emit env name s))"
  by (simp add: emit_def split: option.splits)

lemma framed_cache: "framed s (snd (cache key w s))"
  by (auto simp: cache_def Let_def framed_def logE_def split: cachesProp.splits option.splits)

lemma framed_init: "framed s (snd (init env r s))"
  by (auto simp: init_def ensureConfig_def Let_def framed_def logE_def andThen_def cache_def finishInit_def
      initializeConfig_def split: cachesProp.splits option.splits)

lemma framed_ensureInit: "framed s (snd (ensureInit env s))"
proof (cases "needsInit s")
  case False
  then show ?thesis by (simp add: ensureInit_def)
next
  case True
  have "framed (s\<lparr> initing := True \<rparr>) (snd (init (initE env) False (s\<lparr> initing := True \<rparr>)))"
    by (rule framed_init)
  then have a: "framed s (snd (init (initE env) False (s\<lparr> initing := True \<rparr>)))"
    by (simp add: framed_def)
  have b: "framed s (snd (if \<not> initing s then init (initE env) False (s\<lparr> initing := True \<rparr>)
           else (case sharedInit env of Some e \<Rightarrow> (Thrown e, s) | None \<Rightarrow> (Returned (), s))))"
    using a by (simp split: option.splits)
  have "framed s (snd (andThen
          (if \<not> initing s then init (initE env) False (s\<lparr> initing := True \<rparr>)
           else (case sharedInit env of Some e \<Rightarrow> (Thrown e, s) | None \<Rightarrow> (Returned (), s)))
          (\<lambda>_ s1. (Returned (), s1\<lparr> needsInit := False \<rparr>))))"
    by (rule framed_andThen [OF b]) (simp add: framed_def)
  with True show ?thesis by (simp add: ensureInit_def)
qed

lemma framed_passIncrementalFile: "framed s (snd (passIncrementalFile s))"
  by (simp add: passIncrementalFile_def split: option.splits)

lemma framed_runPipeline: "framed s (snd (runPipeline env to s))"
  by (auto simp: runPipeline_def Let_def framed_def logE_def split: option.splits sum.splits)

lemma framed_tryBlock: "framed s (snd (tryBlock env to s))"
  unfolding tryBlock_def
  apply (rule framed_andThen, rule framed_emit)
  apply (rule framed_andThen, erule framed_trans, rule framed_emit)
  apply (rule framed_andThen, erule framed_trans, rule framed_runPipeline)
  apply (simp only: Let_def)
  apply (rule framed_andThen, erule framed_trans, rule framed_emit)
  apply (rule framed_andThen, erule framed_trans, rule framed_emit)
  apply simp
  done

lemma framed_catchBlock: "framed s (snd (catchBlock e s))"
  by (simp add: catchBlock_def)

lemma framed_finallyBlock: "framed s (snd (finallyBlock env to h r s))"
  by (auto simp: finallyBlock_def Let_def framed_def logE_def split: sum.splits)

lemma framed_tryCatchFinally: "framed s (snd (tryCatchFinally env to s))"
proof -
  obtain r s1 where tb: "tryBlock env to s = (r, s1)" by (cases "tryBlock env to s")
  have f1: "framed s s1" using framed_tryBlock [of s env to] tb by simp
  show ?thesis
  proof (cases r)
    case (Returned ret)
    have "framed s1 (snd (finallyBlock env to False (Returned ret) s1))"
      by (rule framed_finallyBlock)
    with f1 Returned tb show ?thesis
      by (auto simp: tryCatchFinally_def intro: framed_trans)
  next
    case (Thrown e)
    obtain r' s2 where cb: "catchBlock e s1 = (r', s2)" by (cases "catchBlock e s1")
    have f2: "framed s1 s2" using framed_catchBlock [of s1 e] cb by simp
    have "framed s2 (snd (finallyBlock env to True r' s2))"
      by (rule framed_finallyBlock)
    with f1 f2 Thrown tb cb show ?thesis
      by (auto simp: tryCatchFinally_def intro: framed_trans)
  qed
qed

lemma framed_executeBuild: "framed s (snd (executeBuild env to s))"
  unfolding executeBuild_def
proof (rule framed_andThen [OF framed_ensureInit])
  fix a s1
  assume f1: "framed s s1"
  let ?s2 = "if writer s1 = None
             then logE (Fatal (Error ''Eleventy did not run init() properly'')
                          ''Problem writing Eleventy templates'') s1
             else s1"
  have f2: "framed s ?s2" using f1 by (auto intro: framed_trans)
  have "framed ?s2 (snd (andThen (passIncrementalFile ?s2) (\<lambda>_ s3. tryCatchFinally env to s3)))"
  proof (rule framed_andThen [OF framed_passIncrementalFile])
    fix b s3
    assume "framed ?s2 s3"
    then show "framed ?s2 (snd (tryCatchFinally env to s3))"
      by (rule framed_trans) (rule framed_tryCatchFinally)
  qed
  with f2 show "framed s (snd (let s2 = ?s2 in
        andThen (passIncrementalFile s2) (\<lambda>_ s3. tryCatchFinally env to s3)))"
    by (simp only: Let_def) (erule framed_trans)
qed


lemma framed_prepareCycle: "framed s (snd (prepareCycle env r s))"
  unfolding prepareCycle_def
  apply (rule framed_andThen, rule framed_emit)
  apply (rule framed_andThen, erule framed_trans, rule framed_emit)
  apply (auto simp: Let_def framed_def logE_def split: option.splits)
  done

lemma framed_destructure: "framed s (snd (destructure wr s))"
  by (simp add: destructure_def split: buildReturn.splits)

lemma framed_passQueuedFile: "framed s (snd (passQueuedFile env s))"
  by (simp add: passQueuedFile_def split: option.splits)

lemma framed_afterWrite: "framed s (snd (afterWrite env s))"
  by (simp add: afterWrite_def Let_def split: option.splits)

lemma framed_publish: "framed s (snd (publish E env wr tr s))"
  by (auto simp: publish_def Let_def framed_def logE_def
      split: option.splits buildReturn.splits prod.splits)

lemma framed_runCycle: "framed s (snd (runCycle E env r s))"
  unfolding runCycle_def write'_def
  apply (rule framed_andThen, rule framed_prepareCycle)
  apply (rule framed_andThen, erule framed_trans, rule framed_init)
  apply (rule framed_andThen, erule framed_trans, rule framed_passQueuedFile)
  apply (rule framed_andThen, erule framed_trans, rule framed_executeBuild)
  apply (rule framed_andThen, erule framed_trans, rule framed_destructure)
  apply (rule framed_andThen, erule framed_trans, rule framed_afterWrite)
  apply (erule framed_trans, rule framed_publish)
  done

lemma watchInv_initWatch: "hasConfigInitialized s \<Longrightarrow> watchInv (initWatch s)"
  by (simp add: watchInv_def initWatch_def newEleventyWatch_def)

lemma watchInv_watchRun: "watchInv s \<Longrightarrow> watchInv (watchRun E p s)"
  by (auto simp: watchInv_def watchRun_def Let_def addFileToWatchQueue_def logE_def
      addToPendingQueue_def split: option.splits)

lemma watchInv_timer:
  assumes "watchInv s" "\<not> stopped s"
  shows "watchInv (case watchBegin r (s\<lparr> watchDelay := None \<rparr>) of
                     (Thrown e, s1) \<Rightarrow> watchRunCatch e s1
                   | (Returned b, s1) \<Rightarrow> s1)"
  using assms
  by (auto simp: watchInv_def watchBegin_def isBuildRunning_def setBuildRunning_def
      split: option.splits)

lemma watchInv_catch:
  assumes "hasConfigInitialized (elev s)" "watchManager (elev s) = Some wm" "cycles s = 0"
  shows "watchInv (watchRunCatch e s)"
  using assms
  by (auto simp: watchInv_def watchRunCatch_def Let_def logE_def setBuildFinished_def)

lemma watchInv_finishCycle:
  assumes "hasConfigInitialized (elev s)" "watchManager (elev s) = Some wm" "cycles s = 0"
    "\<not> stopped s"
  shows "\<exists>u s1. finishCycle s = (Returned u, s1) \<and> watchInv s1"
  using assms
  by (auto simp: watchInv_def finishCycle_def Let_def logE_def setBuildFinished_def
      watchBegin_def isBuildRunning_def setBuildRunning_def andThen_def getPendingQueueSize_def)

lemma watchInv_cycleEnds:
  assumes inv: "watchInv s" and ns: "\<not> stopped s" and c: "cycles s \<noteq> 0"
  shows "watchInv (case watchEnd E env s of
                     (Thrown e, s1) \<Rightarrow> watchRunCatch e s1
                   | (Returned u, s1) \<Rightarrow> s1)"
proof -
  from inv obtain wm where h: "hasConfigInitialized (elev s)"
    and m: "watchManager (elev s) = Some wm"
    and k: "cycles s = (if buildRunning wm \<and> \<not> stopped s then 1 else 0)"
    by (auto simp: watchInv_def split: option.splits)
  from k c have c1: "cycles s = 1" by (simp split: if_splits)
  obtain r i where rc: "runCycle E env (inFlightReset s) (elev s) = (r, i)"
    by (cases "runCycle E env (inFlightReset s) (elev s)")
  have "framed (elev s) i" using framed_runCycle [of "elev s" E env "inFlightReset s"] rc by simp
  with h m have hi: "hasConfigInitialized i" and mi: "watchManager i = Some wm"
    by (simp_all add: framed_def)
  let ?s0 = "s\<lparr> cycles := cycles s - 1 \<rparr>"
  show ?thesis
  proof (cases r)
    case (Thrown e)
    have "watchInv (watchRunCatch e (?s0\<lparr> elev := i \<rparr>))"
      by (rule watchInv_catch [where wm = wm]) (use hi mi c1 in simp_all)
    with Thrown rc show ?thesis by (simp add: watchEnd_def Let_def)
  next
    case (Returned u)
    have "\<exists>u s1. finishCycle (?s0\<lparr> elev := i \<rparr>) = (Returned u, s1) \<and> watchInv s1"
      by (rule watchInv_finishCycle [where wm = wm]) (use hi mi c1 ns in simp_all)
    with Returned rc show ?thesis by (auto simp: watchEnd_def Let_def)
  qed
qed

lemma watchInv_step: "watchInv s \<Longrightarrow> watchInv (step E i s)"
proof (cases "stopped s")
  case True
  assume "watchInv s"
  with True show ?thesis by (simp add: step_def)
next
  case False
  assume inv: "watchInv s"
  show ?thesis
  proof (cases i)
    case (Notify p)
    with False inv show ?thesis by (simp add: step_def watchInv_watchRun)
  next
    case TimerFires
    with False inv watchInv_timer [OF inv False] show ?thesis
      by (simp add: step_def split: option.splits)
  next
    case (CycleEnds env)
    with False inv watchInv_cycleEnds [OF inv False, of E env] show ?thesis
      by (simp add: step_def)
  qed
qed

lemma watchInv_run: "watchInv s \<Longrightarrow> watchInv (run E inputs s)"
  unfolding run_def by (induction inputs arbitrary: s) (simp_all add: watchInv_step)


lemma sampleRunning_eval:
  "sampleRunning src =
     \<lparr> elev = (sampleReady src)
          \<lparr> watchManager := Some \<lparr> incremental = False, buildRunning = True,
                                 activeQueue = [''./a.css''], pendingQueue = [] \<rparr>,
            trace := [ResourceModified ''a.css'' False] \<rparr>,
       watchDelay = None, inFlightReset = False, cycles = 1, stopped = False \<rparr>"
  by (simp add: sampleRunning_def run_def step_def watchRun_def watchBegin_def initWatch_def
      sampleReady_def
      newEleventy_def newEleventyWatch_def addFileToWatchQueue_def addToPendingQueue_def
      logE_def Let_def shouldResetConfig_def shouldTriggerConfigReset_def newSet_def sampleProject_def
      sampleDotSlash_def sampleSeperator_def isBuildRunning_def setBuildRunning_def)

lemma sampleSavedMeanwhile_eval:
  "sampleSavedMeanwhile src =
     \<lparr> elev = (sampleReady src)
          \<lparr> watchManager := Some \<lparr> incremental = False, buildRunning = True,
                                 activeQueue = [''./a.css''], pendingQueue = [''./c.liquid''] \<rparr>,
            trace := [ResourceModified ''a.css'' False, ResourceModified ''c.liquid'' False] \<rparr>,
       watchDelay = Some False, inFlightReset = False, cycles = 1, stopped = False \<rparr>"
  by (simp add: sampleSavedMeanwhile_def sampleRunning_eval step_def watchRun_def
      sampleReady_def newEleventy_def addFileToWatchQueue_def addToPendingQueue_def
      logE_def Let_def shouldResetConfig_def shouldTriggerConfigReset_def newSet_def sampleProject_def
      sampleDotSlash_def sampleSeperator_def)

text \<open>
  Claim C1. An invocation of \<open>_watch\<close> that finds the flag \<open>buildRunning\<close> set returns
  at once and leaves the whole state as it is. Hence, in every run of a watching process
  (any notifications, timers and cycle ends, in any order), at most one cycle is in
  flight at any time, and a cycle only begins when none is in flight.
\<close>

theorem watch_single_flight:
  "(watchManager (elev s) = Some wm \<longrightarrow> isBuildRunning wm \<longrightarrow>
      watchBegin isResetConfig s = (Returned False, s))
   \<and> (hasConfigInitialized s0 \<longrightarrow> cycles (run E inputs (initWatch s0)) \<le> 1)
   \<and> (hasConfigInitialized s0 \<longrightarrow>
        fst (watchBegin isResetConfig (run E inputs (initWatch s0))) = Returned True \<longrightarrow>
        cycles (run E inputs (initWatch s0)) = 0)"
proof (intro conjI impI)
  assume "watchManager (elev s) = Some wm" "isBuildRunning wm"
  then show "watchBegin isResetConfig s = (Returned False, s)"
    by (simp add: watchBegin_def)
next
  assume "hasConfigInitialized s0"
  then have "watchInv (run E inputs (initWatch s0))"
    by (intro watchInv_run watchInv_initWatch)
  then show "cycles (run E inputs (initWatch s0)) \<le> 1"
    by (auto simp: watchInv_def split: option.splits if_splits)
next
  assume "hasConfigInitialized s0"
  then have "watchInv (run E inputs (initWatch s0))"
    by (intro watchInv_run watchInv_initWatch)
  moreover assume "fst (watchBegin isResetConfig (run E inputs (initWatch s0))) = Returned True"
  ultimately show "cycles (run E inputs (initWatch s0)) = 0"
    by (auto simp: watchInv_def watchBegin_def isBuildRunning_def split: option.splits if_splits)
qed

theorem watch_single_flight_witness:
  "hasConfigInitialized (sampleReady ''cli'')
   \<and> watchManager (elev (sampleRunning ''cli'')) =
        Some \<lparr> incremental = False, buildRunning = True,
               activeQueue = [''./a.css''], pendingQueue = [] \<rparr>
   \<and> isBuildRunning \<lparr> incremental = False, buildRunning = True,
                       activeQueue = [''./a.css''], pendingQueue = [] \<rparr>
   \<and> watchBegin True (sampleRunning ''cli'') = (Returned False, sampleRunning ''cli'')
   \<and> cycles (run sampleProject [Notify ''a.css'', TimerFires, Notify ''c.liquid'', TimerFires]
                (initWatch (sampleReady ''cli''))) \<le> 1
   \<and> fst (watchBegin False (run sampleProject [] (initWatch (sampleReady ''cli'')))) = Returned True
   \<and> cycles (run sampleProject [] (initWatch (sampleReady ''cli''))) = 0"
proof -
  let ?wm = "\<lparr> incremental = False, buildRunning = True,
               activeQueue = [''./a.css''], pendingQueue = [] \<rparr>"
  have h0: "hasConfigInitialized (sampleReady ''cli'')"
    by (simp add: sampleReady_def)
  have h1: "watchManager (elev (sampleRunning ''cli'')) = Some ?wm"
    by (simp add: sampleRunning_eval)
  have h2: "isBuildRunning ?wm"
    by (simp add: isBuildRunning_def)
  have h3: "fst (watchBegin False (run sampleProject [] (initWatch (sampleReady ''cli'')))) = Returned True"
    by (simp add: run_def watchBegin_def initWatch_def sampleReady_def newEleventyWatch_def
        isBuildRunning_def)
  note a = watch_single_flight [of "sampleRunning ''cli''" ?wm True "sampleReady ''cli''"
      sampleProject "[Notify ''a.css'', TimerFires, Notify ''c.liquid'', TimerFires]"]
  note b = watch_single_flight [of "sampleRunning ''cli''" ?wm False "sampleReady ''cli''"
      sampleProject "[]"]
  from a h1 h2 have c1: "watchBegin True (sampleRunning ''cli'') = (Returned False, sampleRunning ''cli'')"
    by blast
  from a h0 have c2: "cycles (run sampleProject [Notify ''a.css'', TimerFires, Notify ''c.liquid'', TimerFires]
                (initWatch (sampleReady ''cli''))) \<le> 1"
    by blast
  from b h0 h3 have c3: "cycles (run sampleProject [] (initWatch (sampleReady ''cli''))) = 0"
    by blast
  from h0 h1 h2 h3 c1 c2 c3 show ?thesis by blast
qed

lemmas build_defs =
  runCycle_def prepareCycle_def emit_def andThen_def init_def ensureConfig_def cache_def
  finishInit_def passQueuedFile_def
  write'_def executeBuild_def ensureInit_def passIncrementalFile_def tryCatchFinally_def
  tryBlock_def runPipeline_def catchBlock_def finallyBlock_def logFinished_def destructure_def
  afterWrite_def publish_def Let_def logE_def snapshots_def counted_def

lemmas sample_defs =
  sampleCycle_def sampleFailingCycle_def sampleBuild_def sampleFailingBuild_def
  sampleInitEnv_def sampleWriter_def sampleReady_def newEleventy_def

lemma sampleFailingCycle_cli:
  "fst (runCycle sampleProject sampleFailingCycle False (elev (sampleSavedMeanwhile ''cli'')))
     = Returned ()"
  by (simp add: sampleSavedMeanwhile_eval build_defs sample_defs)

lemma sampleFailingCycle_script:
  "fst (runCycle sampleProject sampleFailingCycle False (elev (sampleSavedMeanwhile ''script'')))
     = Thrown (EleventyBaseError ''Having trouble rendering template'')"
  by (simp add: sampleSavedMeanwhile_eval build_defs sample_defs)

lemma sampleSavedMeanwhile_inv: "watchInv (sampleSavedMeanwhile src)"
  by (simp add: sampleSavedMeanwhile_eval watchInv_def sampleReady_def)

lemma sampleCycle_cli:
  "fst (runCycle sampleProject sampleCycle False (elev (sampleSavedMeanwhile ''cli'')))
     = Returned ()"
  by (simp add: sampleSavedMeanwhile_eval build_defs sample_defs flat_def setIndex1_def
      hasAllQueueFiles_def)

lemma step_cycleEnds_follow_up:
  assumes inv: "watchInv s" and ns: "\<not> stopped s"
    and m: "watchManager (elev s) = Some wm" and b: "buildRunning wm"
    and rc: "fst (runCycle E env (inFlightReset s) (elev s)) = Returned ()"
    and p: "pendingQueue wm \<noteq> []"
  shows "watchManager (elev (step E (CycleEnds env) s)) =
           Some (setBuildRunning (setBuildFinished wm)) \<and>
         cycles (step E (CycleEnds env) s) = 1"
proof -
  from inv m have h: "hasConfigInitialized (elev s)"
    and k: "cycles s = (if buildRunning wm \<and> \<not> stopped s then 1 else 0)"
    by (auto simp: watchInv_def)
  from k b ns have c1: "cycles s = 1" by simp
  obtain i where rc': "runCycle E env (inFlightReset s) (elev s) = (Returned (), i)"
    using rc by (cases "runCycle E env (inFlightReset s) (elev s)") simp
  have "framed (elev s) (snd (runCycle E env (inFlightReset s) (elev s)))"
    by (rule framed_runCycle)
  with rc' h m have mi: "watchManager i = Some wm" by (simp add: framed_def)
  show ?thesis
    using rc' mi p ns c1
    by (simp add: step_def watchEnd_def finishCycle_def Let_def andThen_def watchBegin_def
        getPendingQueueSize_def setBuildFinished_def isBuildRunning_def logE_def)
qed

text \<open>
  Claim C4, as the code has it. Let a cycle be in flight. If it reaches line 909 (the
  build has succeeded, or has failed and \<open>executeBuild\<close> has returned \<open>{error: e}\<close>), the
  flag is cleared and, in the same step, with the timer untouched: a non-empty pending
  queue makes \<open>_watch\<close> begin exactly one further cycle; an empty one makes it log the
  idle state. If the cycle throws instead, the \<open>catch\<close>
  block of \<open>watchRun\<close> decides: an \<open>EleventyBaseError\<close> is reported and the flag cleared,
  another error stops the watcher; in neither case does a further cycle begin.
\<close>

theorem cycle_end_drains_queue:
  assumes inv: "watchInv s" and ns: "\<not> stopped s" and fl: "cycles s \<noteq> 0"
    and m: "watchManager (elev s) = Some wm"
  shows
    "(runCycle E env (inFlightReset s) (elev s) = (Returned (), i) \<longrightarrow>
        (pendingQueue wm \<noteq> [] \<longrightarrow>
           watchManager (elev (step E (CycleEnds env) s)) =
             Some (setBuildRunning (setBuildFinished wm)) \<and>
           cycles (step E (CycleEnds env) s) = 1 \<and>
           watchDelay (step E (CycleEnds env) s) = watchDelay s \<and>
           trace (elev (step E (CycleEnds env) s)) =
             trace i @ [LogRunAgain (length (pendingQueue wm))]) \<and>
        (pendingQueue wm = [] \<longrightarrow>
           watchManager (elev (step E (CycleEnds env) s)) = Some (setBuildFinished wm) \<and>
           cycles (step E (CycleEnds env) s) = 0 \<and>
           watchDelay (step E (CycleEnds env) s) = watchDelay s \<and>
           trace (elev (step E (CycleEnds env) s)) = trace i @ [Log ''Watching...'']))
     \<and> (runCycle E env (inFlightReset s) (elev s) = (Thrown e, i) \<longrightarrow>
        cycles (step E (CycleEnds env) s) = 0 \<and>
        (isEleventyBaseError e \<longrightarrow>
           watchManager (elev (step E (CycleEnds env) s)) = Some (setBuildFinished wm) \<and>
           \<not> stopped (step E (CycleEnds env) s) \<and>
           trace (elev (step E (CycleEnds env) s)) =
             trace i @ [ErrorReported e ''Eleventy watch error'']) \<and>
        (\<not> isEleventyBaseError e \<longrightarrow>
           stopped (step E (CycleEnds env) s) \<and>
           trace (elev (step E (CycleEnds env) s)) =
             trace i @ [Fatal e ''Eleventy fatal watch error'', StopWatch]))"
proof -
  from inv m have h: "hasConfigInitialized (elev s)"
    and k: "cycles s = (if buildRunning wm \<and> \<not> stopped s then 1 else 0)"
    by (auto simp: watchInv_def)
  from k fl have c1: "cycles s = 1" by (simp split: if_splits)
  have fr: "framed (elev s) (snd (runCycle E env (inFlightReset s) (elev s)))"
    by (rule framed_runCycle)
  show ?thesis
  proof (intro conjI impI)
    assume rc: "runCycle E env (inFlightReset s) (elev s) = (Returned (), i)"
    with fr h m have mi: "watchManager i = Some wm" by (simp add: framed_def)
    {
      assume p: "pendingQueue wm \<noteq> []"
      have st: "step E (CycleEnds env) s =
          s\<lparr> cycles := 1, inFlightReset := False,
             elev := (logE (LogRunAgain (length (pendingQueue wm)))
                       (i\<lparr> watchManager := Some (setBuildFinished wm) \<rparr>))
                     \<lparr> watchManager := Some (setBuildRunning (setBuildFinished wm)) \<rparr> \<rparr>"
        using rc mi p ns fl c1
        by (simp add: step_def watchEnd_def finishCycle_def Let_def andThen_def watchBegin_def
            getPendingQueueSize_def setBuildFinished_def isBuildRunning_def logE_def)
      show "watchManager (elev (step E (CycleEnds env) s)) =
             Some (setBuildRunning (setBuildFinished wm))"
        by (simp add: st)
      show "cycles (step E (CycleEnds env) s) = 1" by (simp add: st)
      show "watchDelay (step E (CycleEnds env) s) = watchDelay s" by (simp add: st)
      show "trace (elev (step E (CycleEnds env) s)) =
             trace i @ [LogRunAgain (length (pendingQueue wm))]"
        by (simp add: st logE_def)
    }
    {
      assume p: "pendingQueue wm = []"
      have st: "step E (CycleEnds env) s =
          s\<lparr> cycles := 0,
             elev := logE (Log ''Watching...'')
                       (i\<lparr> watchManager := Some (setBuildFinished wm) \<rparr>) \<rparr>"
        using rc mi p ns fl c1
        by (simp add: step_def watchEnd_def finishCycle_def Let_def andThen_def
            getPendingQueueSize_def setBuildFinished_def logE_def)
      show "watchManager (elev (step E (CycleEnds env) s)) = Some (setBuildFinished wm)"
        by (simp add: st logE_def)
      show "cycles (step E (CycleEnds env) s) = 0" by (simp add: st)
      show "watchDelay (step E (CycleEnds env) s) = watchDelay s" by (simp add: st)
      show "trace (elev (step E (CycleEnds env) s)) = trace i @ [Log ''Watching...'']"
        by (simp add: st logE_def)
    }
  next
    assume rc: "runCycle E env (inFlightReset s) (elev s) = (Thrown e, i)"
    with fr h m have mi: "watchManager i = Some wm" by (simp add: framed_def)
    have st: "step E (CycleEnds env) s = watchRunCatch e (s\<lparr> cycles := 0, elev := i \<rparr>)"
      using rc ns fl c1 by (simp add: step_def watchEnd_def Let_def)
    show "cycles (step E (CycleEnds env) s) = 0"
      using mi by (simp add: st watchRunCatch_def Let_def logE_def)
    {
      assume b: "isEleventyBaseError e"
      show "watchManager (elev (step E (CycleEnds env) s)) = Some (setBuildFinished wm)"
        using mi b by (simp add: st watchRunCatch_def Let_def logE_def)
      show "\<not> stopped (step E (CycleEnds env) s)"
        using mi b ns by (simp add: st watchRunCatch_def Let_def logE_def)
      show "trace (elev (step E (CycleEnds env) s)) =
             trace i @ [ErrorReported e ''Eleventy watch error'']"
        using mi b by (simp add: st watchRunCatch_def Let_def logE_def)
    }
    {
      assume b: "\<not> isEleventyBaseError e"
      show "stopped (step E (CycleEnds env) s)"
        using b by (simp add: st watchRunCatch_def)
      show "trace (elev (step E (CycleEnds env) s)) =
             trace i @ [Fatal e ''Eleventy fatal watch error'', StopWatch]"
        using b by (simp add: st watchRunCatch_def logE_def)
    }
  qed
qed

theorem cycle_end_drains_queue_witness:
  "watchInv (sampleSavedMeanwhile ''cli'')
   \<and> \<not> stopped (sampleSavedMeanwhile ''cli'')
   \<and> cycles (sampleSavedMeanwhile ''cli'') \<noteq> 0
   \<and> watchManager (elev (sampleSavedMeanwhile ''cli'')) =
        Some \<lparr> incremental = False, buildRunning = True,
               activeQueue = [''./a.css''], pendingQueue = [''./c.liquid''] \<rparr>
   \<and> fst (runCycle sampleProject sampleFailingCycle False (elev (sampleSavedMeanwhile ''cli'')))
        = Returned ()
   \<and> watchManager (elev (step sampleProject (CycleEnds sampleFailingCycle)
                            (sampleSavedMeanwhile ''cli''))) =
        Some \<lparr> incremental = False, buildRunning = True,
               activeQueue = [''./c.liquid''], pendingQueue = [] \<rparr>
   \<and> cycles (step sampleProject (CycleEnds sampleFailingCycle) (sampleSavedMeanwhile ''cli'')) = 1
   \<and> watchInv (sampleSavedMeanwhile ''script'')
   \<and> fst (runCycle sampleProject sampleFailingCycle False (elev (sampleSavedMeanwhile ''script'')))
        = Thrown (EleventyBaseError ''Having trouble rendering template'')
   \<and> cycles (step sampleProject (CycleEnds sampleFailingCycle) (sampleSavedMeanwhile ''script'')) = 0"
proof -
  let ?wm = "\<lparr> incremental = False, buildRunning = True,
               activeQueue = [''./a.css''], pendingQueue = [''./c.liquid''] \<rparr>"
  let ?e = "EleventyBaseError ''Having trouble rendering template''"
  have h1: "watchInv (sampleSavedMeanwhile ''cli'')" by (rule sampleSavedMeanwhile_inv)
  have h2: "\<not> stopped (sampleSavedMeanwhile ''cli'')" by (simp add: sampleSavedMeanwhile_eval)
  have h3: "cycles (sampleSavedMeanwhile ''cli'') \<noteq> 0" by (simp add: sampleSavedMeanwhile_eval)
  have h4: "watchManager (elev (sampleSavedMeanwhile ''cli'')) = Some ?wm"
    by (simp add: sampleSavedMeanwhile_eval sampleReady_def)
  have r: "inFlightReset (sampleSavedMeanwhile ''cli'') = False"
    by (simp add: sampleSavedMeanwhile_eval)
  obtain i where h5: "runCycle sampleProject sampleFailingCycle
                        (inFlightReset (sampleSavedMeanwhile ''cli''))
                        (elev (sampleSavedMeanwhile ''cli'')) = (Returned (), i)"
    using sampleFailingCycle_cli r
    by (cases "runCycle sampleProject sampleFailingCycle False (elev (sampleSavedMeanwhile ''cli''))")
      simp
  have p: "pendingQueue ?wm \<noteq> []" by simp
  note a = cycle_end_drains_queue [OF h1 h2 h3 h4, of sampleProject sampleFailingCycle i ?e]
  from a h5 p have c1: "watchManager (elev (step sampleProject (CycleEnds sampleFailingCycle)
                            (sampleSavedMeanwhile ''cli''))) =
        Some (setBuildRunning (setBuildFinished ?wm))"
    and c2: "cycles (step sampleProject (CycleEnds sampleFailingCycle) (sampleSavedMeanwhile ''cli'')) = 1"
    by blast+
  have g1: "watchInv (sampleSavedMeanwhile ''script'')" by (rule sampleSavedMeanwhile_inv)
  have g2: "\<not> stopped (sampleSavedMeanwhile ''script'')" by (simp add: sampleSavedMeanwhile_eval)
  have g3: "cycles (sampleSavedMeanwhile ''script'') \<noteq> 0" by (simp add: sampleSavedMeanwhile_eval)
  have g4: "watchManager (elev (sampleSavedMeanwhile ''script'')) = Some ?wm"
    by (simp add: sampleSavedMeanwhile_eval sampleReady_def)
  have r': "inFlightReset (sampleSavedMeanwhile ''script'') = False"
    by (simp add: sampleSavedMeanwhile_eval)
  obtain j where g5: "runCycle sampleProject sampleFailingCycle
                        (inFlightReset (sampleSavedMeanwhile ''script''))
                        (elev (sampleSavedMeanwhile ''script'')) = (Thrown ?e, j)"
    using sampleFailingCycle_script r'
    by (cases "runCycle sampleProject sampleFailingCycle False (elev (sampleSavedMeanwhile ''script''))")
      simp
  note b = cycle_end_drains_queue [OF g1 g2 g3 g4, of sampleProject sampleFailingCycle j ?e]
  from b g5 have c3: "cycles (step sampleProject (CycleEnds sampleFailingCycle)
                                (sampleSavedMeanwhile ''script'')) = 0"
    by blast
  from h1 h2 h3 h4 sampleFailingCycle_cli c1 c2 g1 sampleFailingCycle_script c3
  show ?thesis by (simp add: setBuildRunning_def setBuildFinished_def)
qed

text \<open>
  Against C4 as it is stated: a build failure under the source \<open>script\<close> is thrown by
  \<open>executeBuild\<close>, so the cycle ends in the \<open>catch\<close> block; with \<open>./c.liquid\<close> pending,
  no cycle begins and the idle state is not reported.
\<close>

theorem thrown_failure_leaves_queue:
  "cycles (sampleSavedMeanwhile ''script'') = 1
   \<and> cycles (step sampleProject (CycleEnds sampleFailingCycle) (sampleSavedMeanwhile ''script'')) = 0
   \<and> map_option getPendingQueueSize
        (watchManager (elev (step sampleProject (CycleEnds sampleFailingCycle)
                               (sampleSavedMeanwhile ''script'')))) = Some 1
   \<and> map_option isBuildRunning
        (watchManager (elev (step sampleProject (CycleEnds sampleFailingCycle)
                               (sampleSavedMeanwhile ''script'')))) = Some False
   \<and> \<not> stopped (step sampleProject (CycleEnds sampleFailingCycle) (sampleSavedMeanwhile ''script''))
   \<and> Log ''Watching...'' \<notin> set (trace (elev (step sampleProject (CycleEnds sampleFailingCycle)
                                                 (sampleSavedMeanwhile ''script''))))"
  by (simp add: sampleSavedMeanwhile_eval step_def watchEnd_def watchRunCatch_def
      setBuildFinished_def getPendingQueueSize_def isBuildRunning_def build_defs sample_defs)

text \<open>
  Claim C8, as the code has it. A notification that arrives while \<open>buildRunning\<close> is set
  puts its normalised path into the pending queue (unless it is there already), leaves
  the flag, the active queue and the cycle in flight alone, and replaces the timer by a
  new one, as at any other time. When a timer fires while \<open>buildRunning\<close> is set, nothing
  changes but the timer, which is spent. When the cycle in flight reaches line 909, the
  pending queue, if not empty, becomes the active queue of the cycle that begins there.
\<close>

theorem notification_during_build:
  assumes m: "watchManager (elev s) = Some wm" and b: "buildRunning wm" and ns: "\<not> stopped s"
  shows
    "watchManager (elev (step E (Notify p) s)) = Some (addToPendingQueue E (normalize E p) wm)
     \<and> buildRunning (addToPendingQueue E (normalize E p) wm)
     \<and> activeQueue (addToPendingQueue E (normalize E p) wm) = activeQueue wm
     \<and> set (pendingQueue (addToPendingQueue E (normalize E p) wm)) =
         insert (normalizeSeperator E (addLeadingDotSlash E (normalize E p)))
           (set (pendingQueue wm))
     \<and> cycles (step E (Notify p) s) = cycles s
     \<and> watchDelay (step E (Notify p) s) = Some (shouldResetConfig E [normalize E p])
     \<and> step E TimerFires s = s\<lparr> watchDelay := None \<rparr>
     \<and> (watchInv s \<longrightarrow> fst (runCycle E env (inFlightReset s) (elev s)) = Returned () \<longrightarrow>
          pendingQueue wm \<noteq> [] \<longrightarrow>
            map_option activeQueue (watchManager (elev (step E (CycleEnds env) s))) =
              Some (pendingQueue wm) \<and>
            map_option pendingQueue (watchManager (elev (step E (CycleEnds env) s))) = Some [] \<and>
            cycles (step E (CycleEnds env) s) = 1)"
proof (intro conjI impI)
  show "watchManager (elev (step E (Notify p) s)) = Some (addToPendingQueue E (normalize E p) wm)"
    using m ns by (simp add: step_def watchRun_def Let_def addFileToWatchQueue_def logE_def)
  show "buildRunning (addToPendingQueue E (normalize E p) wm)"
    using b by (simp add: addToPendingQueue_def Let_def)
  show "activeQueue (addToPendingQueue E (normalize E p) wm) = activeQueue wm"
    by (simp add: addToPendingQueue_def Let_def)
  show "set (pendingQueue (addToPendingQueue E (normalize E p) wm)) =
         insert (normalizeSeperator E (addLeadingDotSlash E (normalize E p)))
           (set (pendingQueue wm))"
    by (auto simp: addToPendingQueue_def Let_def)
  show "cycles (step E (Notify p) s) = cycles s"
    using ns by (simp add: step_def watchRun_def Let_def)
  show "watchDelay (step E (Notify p) s) = Some (shouldResetConfig E [normalize E p])"
    using ns by (simp add: step_def watchRun_def Let_def)
  show "step E TimerFires s = s\<lparr> watchDelay := None \<rparr>"
    using m b ns
    by (simp add: step_def watchBegin_def isBuildRunning_def split: option.splits)
next
  assume inv: "watchInv s"
    and rc: "fst (runCycle E env (inFlightReset s) (elev s)) = Returned ()"
    and p: "pendingQueue wm \<noteq> []"
  note f = step_cycleEnds_follow_up [OF inv ns m b rc p]
  from f show "map_option activeQueue (watchManager (elev (step E (CycleEnds env) s))) =
              Some (pendingQueue wm)"
    by (simp add: setBuildRunning_def setBuildFinished_def)
  from f show "map_option pendingQueue (watchManager (elev (step E (CycleEnds env) s))) = Some []"
    by (simp add: setBuildRunning_def setBuildFinished_def)
  from f show "cycles (step E (CycleEnds env) s) = 1" by simp
qed

theorem notification_during_build_witness:
  "watchManager (elev (sampleRunning ''cli'')) =
     Some \<lparr> incremental = False, buildRunning = True,
            activeQueue = [''./a.css''], pendingQueue = [] \<rparr>
   \<and> \<not> stopped (sampleRunning ''cli'')
   \<and> watchDelay (step sampleProject (Notify ''c.liquid'') (sampleRunning ''cli'')) = Some False
   \<and> watchManager (elev (sampleSavedMeanwhile ''cli'')) =
       Some \<lparr> incremental = False, buildRunning = True,
              activeQueue = [''./a.css''], pendingQueue = [''./c.liquid''] \<rparr>
   \<and> \<not> stopped (sampleSavedMeanwhile ''cli'')
   \<and> step sampleProject TimerFires (sampleSavedMeanwhile ''cli'') =
       (sampleSavedMeanwhile ''cli'')\<lparr> watchDelay := None \<rparr>
   \<and> watchInv (sampleSavedMeanwhile ''cli'')
   \<and> fst (runCycle sampleProject sampleCycle (inFlightReset (sampleSavedMeanwhile ''cli''))
            (elev (sampleSavedMeanwhile ''cli''))) = Returned ()
   \<and> map_option activeQueue
        (watchManager (elev (step sampleProject (CycleEnds sampleCycle)
                               (sampleSavedMeanwhile ''cli'')))) = Some [''./c.liquid'']
   \<and> cycles (step sampleProject (CycleEnds sampleCycle) (sampleSavedMeanwhile ''cli'')) = 1"
proof -
  let ?wa = "\<lparr> incremental = False, buildRunning = True,
               activeQueue = [''./a.css''], pendingQueue = [] \<rparr>"
  let ?wb = "\<lparr> incremental = False, buildRunning = True,
               activeQueue = [''./a.css''], pendingQueue = [''./c.liquid''] \<rparr>"
  have a1: "watchManager (elev (sampleRunning ''cli'')) = Some ?wa"
    by (simp add: sampleRunning_eval)
  have a2: "buildRunning ?wa" by simp
  have a3: "\<not> stopped (sampleRunning ''cli'')" by (simp add: sampleRunning_eval)
  have b1: "watchManager (elev (sampleSavedMeanwhile ''cli'')) = Some ?wb"
    by (simp add: sampleSavedMeanwhile_eval)
  have b2: "buildRunning ?wb" by simp
  have b3: "\<not> stopped (sampleSavedMeanwhile ''cli'')" by (simp add: sampleSavedMeanwhile_eval)
  have b4: "watchInv (sampleSavedMeanwhile ''cli'')" by (rule sampleSavedMeanwhile_inv)
  have b5: "fst (runCycle sampleProject sampleCycle (inFlightReset (sampleSavedMeanwhile ''cli''))
            (elev (sampleSavedMeanwhile ''cli''))) = Returned ()"
    using sampleCycle_cli by (simp add: sampleSavedMeanwhile_eval)
  have b6: "pendingQueue ?wb \<noteq> []" by simp
  note ta = notification_during_build [OF a1 a2 a3, of sampleProject "''c.liquid''" sampleCycle]
  note tb = notification_during_build [OF b1 b2 b3, of sampleProject "''c.liquid''" sampleCycle]
  have c1: "watchDelay (step sampleProject (Notify ''c.liquid'') (sampleRunning ''cli'')) = Some False"
    using ta
    by (simp add: shouldResetConfig_def shouldTriggerConfigReset_def newSet_def sampleProject_def
        sampleDotSlash_def sampleSeperator_def)
  from tb have c2: "step sampleProject TimerFires (sampleSavedMeanwhile ''cli'') =
       (sampleSavedMeanwhile ''cli'')\<lparr> watchDelay := None \<rparr>"
    by blast
  from tb b4 b5 b6 have c3: "map_option activeQueue
        (watchManager (elev (step sampleProject (CycleEnds sampleCycle)
                               (sampleSavedMeanwhile ''cli'')))) = Some (pendingQueue ?wb)"
    and c4: "cycles (step sampleProject (CycleEnds sampleCycle) (sampleSavedMeanwhile ''cli'')) = 1"
    by blast+
  from a1 a3 c1 b1 b3 c2 b4 b5 c3 c4 show ?thesis by simp
qed

text \<open>
  Against C8 as it is stated: with a cycle in flight and no timer pending, a notification
  leaves a timer pending, \<open>watchRun\<close> calling \<open>setTimeout\<close> whatever the flag says.
\<close>

theorem notification_during_build_starts_timer:
  "map_option buildRunning (watchManager (elev (sampleRunning ''cli''))) = Some True
   \<and> watchDelay (sampleRunning ''cli'') = None
   \<and> watchDelay (step sampleProject (Notify ''c.liquid'') (sampleRunning ''cli'')) = Some False"
  using sampleSavedMeanwhile_eval [of "''cli''"]
  by (simp add: sampleRunning_eval sampleSavedMeanwhile_def sampleReady_def)

text \<open>
  The timer that a notification during a build has started outlives the follow-up cycle:
  when it fires after that cycle has ended, \<open>_watch\<close> begins a further cycle, whose
  active queue is empty.
\<close>

lemma late_timer_starts_empty_cycle:
  "cycles (run sampleProject
       [Notify ''a.css'', TimerFires, Notify ''c.liquid'', CycleEnds sampleCycle,
        CycleEnds sampleCycle]
       (initWatch (sampleReady ''cli''))) = 0
   \<and> map_option getActiveQueue (watchManager (elev (run sampleProject
       [Notify ''a.css'', TimerFires, Notify ''c.liquid'', CycleEnds sampleCycle,
        CycleEnds sampleCycle, TimerFires]
       (initWatch (sampleReady ''cli''))))) = Some []
   \<and> cycles (run sampleProject
       [Notify ''a.css'', TimerFires, Notify ''c.liquid'', CycleEnds sampleCycle,
        CycleEnds sampleCycle, TimerFires]
       (initWatch (sampleReady ''cli''))) = 1"
  by (simp add: run_def step_def watchRun_def watchBegin_def initWatch_def watchEnd_def
      finishCycle_def getPendingQueueSize_def getActiveQueue_def
      newEleventyWatch_def addFileToWatchQueue_def addToPendingQueue_def
      shouldResetConfig_def shouldTriggerConfigReset_def newSet_def sampleProject_def
      sampleDotSlash_def sampleSeperator_def isBuildRunning_def setBuildRunning_def
      setBuildFinished_def hasAllQueueFiles_def flat_def setIndex1_def
      build_defs sample_defs)

text \<open>
  Claim C2, on the code. The configuration file and then a template change within one
  debounce window: both are in the active queue of the cycle, for which
  \<open>_shouldResetConfig\<close> answers true, but the cycle runs with the \<open>isResetConfig\<close> of the
  last notification, false, and does not reset the configuration. In the other order of
  arrival the same queue is built with a reset.
\<close>

theorem reset_decided_by_last_notification:
  "map_option activeQueue
     (watchManager (elev (run sampleProject
        [Notify ''eleventy.config.js'', Notify ''content/post.md'', TimerFires]
        (initWatch (sampleReady ''cli''))))) =
     Some [''./eleventy.config.js'', ''./content/post.md'']
   \<and> shouldResetConfig sampleProject [''./eleventy.config.js'', ''./content/post.md'']
   \<and> inFlightReset (run sampleProject
        [Notify ''eleventy.config.js'', Notify ''content/post.md'', TimerFires]
        (initWatch (sampleReady ''cli''))) = False
   \<and> ResetConfig \<notin> set (trace (elev (run sampleProject
        [Notify ''eleventy.config.js'', Notify ''content/post.md'', TimerFires,
         CycleEnds sampleCycle]
        (initWatch (sampleReady ''cli'')))))
   \<and> inFlightReset (run sampleProject
        [Notify ''content/post.md'', Notify ''eleventy.config.js'', TimerFires]
        (initWatch (sampleReady ''cli''))) = True"
  by (simp add: run_def step_def watchRun_def watchBegin_def initWatch_def watchEnd_def
      finishCycle_def getPendingQueueSize_def
      newEleventyWatch_def addFileToWatchQueue_def addToPendingQueue_def
      shouldResetConfig_def shouldTriggerConfigReset_def newSet_def sampleProject_def
      sampleDotSlash_def sampleSeperator_def isBuildRunning_def setBuildRunning_def
      setBuildFinished_def hasAllQueueFiles_def flat_def setIndex1_def
      build_defs sample_defs)

section \<open>Properties of the reload payload\<close>

lemma rewriteUrls_ok:
  "list_all takesProperty es \<Longrightarrow>
     \<exists>st'. rewriteUrls j es st = (None, st') \<and>
       (\<forall>r. st' r = (j ^^ count_list es (Object r)) (st r))"
proof (induction j es st rule: rewriteUrls.induct)
  case (1 j st)
  then show ?case by simp
next
  case (2 j r entries st)
  from "2.prems" have "list_all takesProperty entries" by simp
  from "2.IH" [OF this]
  obtain st' where a: "rewriteUrls j entries (st(r := j (st r))) = (None, st')"
    and b: "\<forall>r'. st' r' = (j ^^ count_list entries (Object r')) ((st(r := j (st r))) r')"
    by blast
  show ?case using a b by (auto simp: funpow_swap1)
next
  case (3 j vs entries st)
  then show ?case by auto
qed simp_all

text \<open>
  What lines 880 to 907 publish, whatever array \<open>write\<close> has returned, if the flattened
  truthy elements after its first element are objects or arrays: one payload, whose
  subtype is \<open>css\<close> exactly when every path of the active queue ends in \<open>.css\<close> and none
  lies under the includes directory; whose files are the active queue; whose templates
  are those elements, in order; and in which the URL of an entry is \<open>joinUrlParts\<close> of
  the normalised path prefix and its old URL, applied once for each occurrence of the
  entry among them.
\<close>

lemma reload_payload:
  assumes m: "watchManager s = Some wm"
    and ok: "list_all takesProperty (filter truthy (flat (tl ret)))"
  shows
    "\<exists>p st. trace (snd (publish E env (Results ret) (Some (tl ret)) s)) = trace s @ [Reload p]
       \<and> files p = activeQueue wm
       \<and> (subtype p = Some ''css'' \<longleftrightarrow>
            (\<forall>q \<in> set (activeQueue wm).
               endsWith q ''.css'' \<and> \<not> startsWithSubPath E q (getIncludesDir E)))
       \<and> (subtype p = None \<or> subtype p = Some ''css'')
       \<and> templates p = map (itemOf st) (filter truthy (flat (tl ret)))
       \<and> (\<forall>r. st r =
              (joinUrlParts E (normalizePathPrefix E (pathPrefix E))
                 ^^ count_list (filter truthy (flat (tl ret))) (Object r)) (urls env r))
       \<and> (\<forall>r. count_list (filter truthy (flat (tl ret))) (Object r) = 1 \<longrightarrow>
              st r = joinUrlParts E (normalizePathPrefix E (pathPrefix E)) (urls env r))"
proof -
  let ?j = "joinUrlParts E (normalizePathPrefix E (pathPrefix E))"
  let ?es = "filter truthy (flat (tl ret))"
  from rewriteUrls_ok [OF ok, of ?j "urls env"]
  obtain st where rw: "rewriteUrls ?j ?es (urls env) = (None, st)"
    and st: "\<forall>r. st r = (?j ^^ count_list ?es (Object r)) (urls env r)"
    by blast
  let ?p = "\<lparr> files = getActiveQueue wm,
              subtype = (if hasAllQueueFiles wm (isCssChange E) then Some ''css'' else None),
              templates = map (itemOf st) ?es \<rparr>"
  have tr: "trace (snd (publish E env (Results ret) (Some (tl ret)) s)) = trace s @ [Reload ?p]"
    using m rw by (simp add: publish_def Let_def split: option.splits)
  have "files ?p = activeQueue wm" by (simp add: getActiveQueue_def)
  moreover have "subtype ?p = Some ''css'' \<longleftrightarrow>
            (\<forall>q \<in> set (activeQueue wm).
               endsWith q ''.css'' \<and> \<not> startsWithSubPath E q (getIncludesDir E))"
    by (simp add: hasAllQueueFiles_def isCssChange_def list_all_iff)
  moreover have "subtype ?p = None \<or> subtype ?p = Some ''css''" by simp
  moreover have "templates ?p = map (itemOf st) ?es" by simp
  moreover have "\<forall>r. count_list ?es (Object r) = 1 \<longrightarrow> st r = ?j (urls env r)"
    using st by simp
  ultimately show ?thesis using tr st by blast
qed

lemma reload_payload_sample:
  "watchManager sampleStylesInstance = Some sampleStyles
   \<and> list_all takesProperty
        (filter truthy (flat (tl [Array [], Array [Object 1, Object 2], Undefined])))
   \<and> trace (snd (publish sampleProject sampleCycle
                    (Results [Array [], Array [Object 1, Object 2], Undefined])
                    (Some (tl [Array [], Array [Object 1, Object 2], Undefined]))
                    sampleStylesInstance)) =
       [Reload \<lparr> files = [''./a.css'', ''./css/b.css''], subtype = Some ''css'',
                 templates = [Entry 1 (String ''/blog/a/''), Entry 2 (String ''/blog/b/'')] \<rparr>]"
proof -
  let ?ret = "[Array [], Array [Object 1, Object 2], Undefined]"
  have h1: "watchManager sampleStylesInstance = Some sampleStyles"
    by (simp add: sampleStylesInstance_def)
  have es: "filter truthy (flat (tl ?ret)) = [Object 1, Object 2]"
    by (simp add: flat_def)
  have h2: "list_all takesProperty (filter truthy (flat (tl ?ret)))"
    unfolding es by simp
  from reload_payload [OF h1 h2, of sampleProject sampleCycle]
  obtain p st where
    tr: "trace (snd (publish sampleProject sampleCycle (Results ?ret) (Some (tl ?ret))
                       sampleStylesInstance)) = trace sampleStylesInstance @ [Reload p]"
    and f: "files p = activeQueue sampleStyles"
    and sub: "subtype p = Some ''css'' \<longleftrightarrow>
            (\<forall>q \<in> set (activeQueue sampleStyles).
               endsWith q ''.css'' \<and> \<not> startsWithSubPath sampleProject q (getIncludesDir sampleProject))"
    and t: "templates p = map (itemOf st) (filter truthy (flat (tl ?ret)))"
    and one: "\<forall>r. count_list (filter truthy (flat (tl ?ret))) (Object r) = 1 \<longrightarrow>
              st r = joinUrlParts sampleProject
                       (normalizePathPrefix sampleProject (pathPrefix sampleProject))
                       (urls sampleCycle r)"
    by blast
  have "files p = [''./a.css'', ''./css/b.css'']"
    using f by (simp add: sampleStyles_def)
  moreover have "subtype p = Some ''css''"
    using sub by (simp add: sampleStyles_def sampleProject_def endsWith_def)
  moreover have "st 1 = String ''/blog/a/''" and "st 2 = String ''/blog/b/''"
    using one unfolding es
    by (simp_all add: sampleProject_def sampleCycle_def sampleUrls_def sampleJoin_def)
  then have "templates p = [Entry 1 (String ''/blog/a/''), Entry 2 (String ''/blog/b/'')]"
    using t unfolding es by simp
  ultimately have "p = \<lparr> files = [''./a.css'', ''./css/b.css''], subtype = Some ''css'',
                 templates = [Entry 1 (String ''/blog/a/''), Entry 2 (String ''/blog/b/'')] \<rparr>"
    by (cases p) simp
  moreover have "trace sampleStylesInstance = []"
    by (simp add: sampleStylesInstance_def sampleReady_def newEleventy_def)
  ultimately show ?thesis using h1 h2 tr by simp
qed

text \<open>
  Claim C7, on the code. Two templates with one result each, a change of \<open>./a.css\<close> and
  the path prefix \<open>/blog\<close>: \<open>executeBuild\<close> puts the flattened results of both templates
  at index 1 of the array that the pipeline has returned and leaves the array of the
  second template at index 2, so \<open>_watch\<close>, which flattens all that follows index 0, lists
  the entry of the second template twice; and since the callback of \<open>map\<close> updates the
  entry itself, its URL \<open>/b/\<close> gets the prefix twice. The subtype and the files of the
  payload are as the claim says.
\<close>

theorem two_templates_listed_twice:
  "fst (write' sampleTwoTemplates (sampleReady ''cli'')) =
     Returned (Results [Array [], Array [Object 1, Object 2], Array [Object 2]])
   \<and> urls sampleTwoTemplatesCycle 2 = String ''/b/''
   \<and> filter isReload
        (trace (elev (step sampleProject (CycleEnds sampleTwoTemplatesCycle)
                        (sampleRunning ''cli'')))) =
       [Reload \<lparr> files = [''./a.css''], subtype = Some ''css'',
                 templates = [Entry 1 (String ''/blog/a/''),
                              Entry 2 (String ''/blog/blog/b/''),
                              Entry 2 (String ''/blog/blog/b/'')] \<rparr>]"
  by (simp add: sampleRunning_eval step_def watchEnd_def finishCycle_def
      getPendingQueueSize_def setBuildFinished_def getActiveQueue_def
      hasAllQueueFiles_def isCssChange_def endsWith_def flat_def setIndex1_def
      sampleTwoTemplatesCycle_def sampleTwoTemplates_def sampleUrls_def sampleProject_def
      sampleJoin_def build_defs sample_defs)

end
